theory Spec2Isabelle
  imports Complex_Main
begin

section \<open>Values of the host language\<close>

text \<open>
  The parser works on untyped data: the blocks of a page parsed as JSON, the flat
  table of meta tags, and the page's global registers. A value is \<open>undefined\<close>,
  \<open>null\<close>, a boolean, a number, a string, an array, an object (its own properties, in
  order), or a function of the host (known only by its source text).

  A number is a finite binary64 value, given exactly (every such value is a rational),
  or one of the four other numbers: \<open>NaN\<close>, the two infinities and negative zero.
  A string is the list of its code units.
\<close>

datatype jsval =
    JUndefined
  | JNull
  | JBool bool
  | JNum rat
  | JNaN
  | JPosInfinity
  | JNegInfinity
  | JNegZero
  | JStr string
  | JArr "jsval list"
  | JObj "(string \<times> jsval) list"
  | JFunction string

datatype error = TypeError | SyntaxError

text \<open>
  What the program uses of the ECMAScript library and of the object model beyond own
  properties is not code of the package. It is a parameter of every function that
  needs it:
  \<^item> \<open>numToString\<close>: \<open>String(n)\<close> for a finite number;
  \<open>parseFloat\<close>: the number that \<open>parseFloat(s)\<close> returns, which is the binary64
  value nearest to the decimal literal at the head of \<open>s\<close>, an infinity beyond the
  range, negative zero for a negative literal of value zero, and \<open>NaN\<close> without a
  literal;
  \<open>objectToString\<close>: \<open>String(v)\<close> for an array, an object or a function (it runs
  the value's \<open>toString\<close> and \<open>valueOf\<close>, and may throw);
  \<^item> \<open>inherited\<close>: the value a property lookup finds on the prototype chain when the
  value has no own property of that name (\<open>undefined\<close> when there is none);
  \<^item> \<open>re_match p f s\<close>: \<open>s.match(new RegExp(p, f))\<close>, where \<open>Inl SyntaxError\<close> is the
  constructor's exception, \<open>None\<close> is \<open>null\<close> (no match) and the list is the match
  array, with \<open>None\<close> for an \<open>undefined\<close> entry;
  \<open>re_replace p f s r\<close>: \<open>s.replace(new RegExp(p, f), r)\<close>;
  \<^item> \<open>str_trim\<close>, \<open>toLowerCase\<close>, \<open>toUpperCase\<close>: the string methods.
\<close>

record host =
  numToString :: "rat \<Rightarrow> string"
  parseFloat :: "string \<Rightarrow> jsval"
  objectToString :: "jsval \<Rightarrow> error + string"
  inherited :: "jsval \<Rightarrow> string \<Rightarrow> jsval"
  re_match :: "string \<Rightarrow> string option \<Rightarrow> string \<Rightarrow> error + string option list option"
  re_replace :: "string \<Rightarrow> string option \<Rightarrow> string \<Rightarrow> string \<Rightarrow> error + string"
  str_trim :: "string \<Rightarrow> string"
  toLowerCase :: "string \<Rightarrow> string"
  toUpperCase :: "string \<Rightarrow> string"

text \<open>\<open>!v\<close> is false exactly on the truthy values.\<close>

fun truthy :: "jsval \<Rightarrow> bool" where
  "truthy JUndefined = False"
| "truthy JNull = False"
| "truthy (JBool b) = b"
| "truthy (JNum r) = (r \<noteq> 0)"
| "truthy JNaN = False"
| "truthy JPosInfinity = True"
| "truthy JNegInfinity = True"
| "truthy JNegZero = False"
| "truthy (JStr s) = (s \<noteq> [])"
| "truthy (JArr xs) = True"
| "truthy (JObj kvs) = True"
| "truthy (JFunction f) = True"

text \<open>\<open>v === undefined || v === null\<close>\<close>

fun nullish :: "jsval \<Rightarrow> bool" where
  "nullish JUndefined = True"
| "nullish JNull = True"
| "nullish v = False"

text \<open>\<open>typeof v\<close>\<close>

fun typeof :: "jsval \<Rightarrow> string" where
  "typeof JUndefined = ''undefined''"
| "typeof JNull = ''object''"
| "typeof (JBool b) = ''boolean''"
| "typeof (JNum r) = ''number''"
| "typeof JNaN = ''number''"
| "typeof JPosInfinity = ''number''"
| "typeof JNegInfinity = ''number''"
| "typeof JNegZero = ''number''"
| "typeof (JStr s) = ''string''"
| "typeof (JArr xs) = ''object''"
| "typeof (JObj kvs) = ''object''"
| "typeof (JFunction f) = ''function''"

fun isArray :: "jsval \<Rightarrow> bool" where
  "isArray (JArr xs) = True"
| "isArray v = False"

text \<open>\<open>String(v)\<close>: the primitives are converted here, the rest by the host.\<close>

fun js_String :: "host \<Rightarrow> jsval \<Rightarrow> error + string" where
  "js_String h JUndefined = Inr ''undefined''"
| "js_String h JNull = Inr ''null''"
| "js_String h (JBool b) = Inr (if b then ''true'' else ''false'')"
| "js_String h (JNum r) = Inr (numToString h r)"
| "js_String h JNaN = Inr ''NaN''"
| "js_String h JPosInfinity = Inr ''Infinity''"
| "js_String h JNegInfinity = Inr ''-Infinity''"
| "js_String h JNegZero = Inr ''0''"
| "js_String h (JStr s) = Inr s"
| "js_String h v = objectToString h v"

subsection \<open>Digits\<close>

definition is_digit :: "char \<Rightarrow> bool" where
  "is_digit c = (c \<in> set ''0123456789'')"

definition digit_val :: "char \<Rightarrow> nat" where
  "digit_val c = length (takeWhile (\<lambda>d. d \<noteq> c) ''0123456789'')"

text \<open>
  \<open>parseInt(ds, 10)\<close> on a string of decimal digits. The program's number is this
  value rounded to binary64, which differs only beyond the length of any array.
\<close>

definition parseInt10 :: "string \<Rightarrow> nat" where
  "parseInt10 ds = foldl (\<lambda>a c. 10 * a + digit_val c) 0 ds"

subsection \<open>Property access\<close>

text \<open>
  A string names an element of an array when it is the decimal numeral of the index,
  without leading zeros.
\<close>

definition is_array_index :: "string \<Rightarrow> bool" where
  "is_array_index k = (k \<noteq> [] \<and> (\<forall>c \<in> set k. is_digit c) \<and> (k = ''0'' \<or> hd k \<noteq> CHR ''0''))"

text \<open>
  \<open>v[k]\<close>. On \<open>undefined\<close> and \<open>null\<close> it throws. An array owns its elements and
  \<open>length\<close>, a string its characters and \<open>length\<close>, an object its listed properties;
  every other name, and every property of a number, a boolean or a function, is looked
  up on the prototype chain, which is the host's. An index past the end of an array or
  a string is \<open>undefined\<close>: the standard prototypes carry no property named by a
  numeral.
\<close>

definition getProp :: "host \<Rightarrow> jsval \<Rightarrow> string \<Rightarrow> error + jsval" where
  "getProp h v k =
    (case v of
       JUndefined \<Rightarrow> Inl TypeError
     | JNull \<Rightarrow> Inl TypeError
     | JArr xs \<Rightarrow>
         Inr (if is_array_index k
              then (if parseInt10 k < length xs then xs ! parseInt10 k else JUndefined)
              else if k = ''length'' then JNum (of_nat (length xs))
              else inherited h v k)
     | JStr s \<Rightarrow>
         Inr (if is_array_index k
              then (if parseInt10 k < length s then JStr [s ! parseInt10 k] else JUndefined)
              else if k = ''length'' then JNum (of_nat (length s))
              else inherited h v k)
     | JObj kvs \<Rightarrow>
         Inr (case map_of kvs k of Some x \<Rightarrow> x | None \<Rightarrow> inherited h v k)
     | _ \<Rightarrow> Inr (inherited h v k))"

text \<open>\<open>xs[i]\<close> for a number \<open>i\<close> that is a natural number, on an array.\<close>

definition elemAt :: "jsval list \<Rightarrow> nat \<Rightarrow> jsval" where
  "elemAt xs i = (if i < length xs then xs ! i else JUndefined)"

section \<open>The path evaluator\<close>

text \<open>\<open>path.split('.')\<close>\<close>

fun split_on :: "char \<Rightarrow> string \<Rightarrow> string list" where
  "split_on sep [] = [[]]"
| "split_on sep (c # cs) =
    (if c = sep then [] # split_on sep cs
     else (case split_on sep cs of
             [] \<Rightarrow> [[c]]
           | p # ps \<Rightarrow> (c # p) # ps))"

text \<open>\<open>part.indexOf('[')\<close>, for a part that contains the character.\<close>

definition indexOf :: "string \<Rightarrow> char \<Rightarrow> nat" where
  "indexOf s c = length (takeWhile (\<lambda>d. d \<noteq> c) s)"

text \<open>
  \<open>Array.from(indexPart.matchAll(/\[(\d+)\]/g), match => parseInt(match[1], 10))\<close>:
  the matches of an opening bracket, one or more digits and a closing bracket, from
  left to right and without overlap. A match can only start at an opening bracket;
  the digits are taken greedily, and the attempt fails unless a closing bracket
  follows them. After a failure the search resumes one character later, after a
  match behind it.
\<close>

function scan_indices :: "string \<Rightarrow> nat list" where
  "scan_indices [] = []"
| "scan_indices (c # cs) =
    (if c = CHR ''[''
     then (let ds = takeWhile is_digit cs; rest = dropWhile is_digit cs
           in if ds \<noteq> [] \<and> rest \<noteq> [] \<and> hd rest = CHR '']''
              then parseInt10 ds # scan_indices (tl rest)
              else scan_indices cs)
     else scan_indices cs)"
  by pat_completeness auto
termination
proof (relation "measure length")
  show "wf (measure length)" by simp
next
  fix c :: char and cs ds rest
  assume "rest = dropWhile is_digit cs"
  then have "length (tl rest) \<le> length cs"
    using length_dropWhile_le [of is_digit cs] by simp
  then show "(tl rest, c # cs) \<in> measure length" by simp
qed simp_all

text \<open>
  The inner loop over the indices. \<open>None\<close> stands for the early \<open>return null\<close>,
  \<open>Some\<close> for the cursor after the loop.
\<close>

fun apply_indices :: "jsval \<Rightarrow> nat list \<Rightarrow> jsval option" where
  "apply_indices current [] = Some current"
| "apply_indices current (i # is) =
    (case current of
       JArr xs \<Rightarrow> (if nullish (elemAt xs i) then None else apply_indices (elemAt xs i) is)
     | _ \<Rightarrow> None)"

text \<open>
  The body of the loop over the parts, up to the test that follows both branches.
  \<open>Inl\<close> is an exception, \<open>Inr None\<close> the early \<open>return null\<close>.
\<close>

definition eval_part :: "host \<Rightarrow> jsval \<Rightarrow> string \<Rightarrow> error + jsval option" where
  "eval_part h current part =
    (if CHR ''['' \<in> set part \<and> CHR '']'' \<in> set part
     then (let bracketStart = indexOf part CHR ''['';
               propertyName = take bracketStart part;
               indexPart = drop bracketStart part;
               indices = scan_indices indexPart
           in if indices = [] then Inr None
              else if propertyName \<noteq> []
              then (case getProp h current propertyName of
                      Inl e \<Rightarrow> Inl e
                    | Inr c \<Rightarrow> if nullish c then Inr None else Inr (apply_indices c indices))
              else Inr (apply_indices current indices))
     else (case getProp h current part of
             Inl e \<Rightarrow> Inl e
           | Inr c \<Rightarrow> Inr (Some c)))"

fun eval_parts :: "host \<Rightarrow> jsval \<Rightarrow> string list \<Rightarrow> error + jsval option" where
  "eval_parts h current [] = Inr (Some current)"
| "eval_parts h current (part # parts) =
    (case eval_part h current part of
       Inl e \<Rightarrow> Inl e
     | Inr None \<Rightarrow> Inr None
     | Inr (Some c) \<Rightarrow> if nullish c then Inr None else eval_parts h c parts)"

text \<open>The body of the \<open>try\<close> block.\<close>

definition evaluate_try :: "host \<Rightarrow> jsval \<Rightarrow> string \<Rightarrow> error + string option" where
  "evaluate_try h obj path =
    (if \<not> truthy obj \<or> path = [] then Inr None
     else (case eval_parts h obj (split_on CHR ''.'' path) of
             Inl e \<Rightarrow> Inl e
           | Inr None \<Rightarrow> Inr None
           | Inr (Some c) \<Rightarrow>
               if \<not> nullish c
               then (case js_String h c of Inl e \<Rightarrow> Inl e | Inr s \<Rightarrow> Inr (Some s))
               else Inr None))"

text \<open>The function: the \<open>catch\<close> clause turns every exception into \<open>null\<close>.\<close>

definition evaluateStructuredDataPath :: "host \<Rightarrow> jsval \<Rightarrow> string \<Rightarrow> string option" where
  "evaluateStructuredDataPath h obj path =
    (case evaluate_try h obj path of Inl e \<Rightarrow> None | Inr r \<Rightarrow> r)"

section \<open>The data of the processor\<close>

text \<open>
  The payload holds the five sources and the page's data. A source is any value at run
  time, whatever its declared type, and \<open>undefined\<close> when the payload has none.
\<close>

record payload =
  version :: "string option"
  jsonLd :: jsval
  metaTags :: jsval
  dataLayers :: jsval
  microdata :: jsval
  customDataLayers :: jsval
  url :: string
  pageTitle :: string
  timestamp :: string
  extractorVersion :: string

datatype transformation_type =
  Regex | Replace | Trim | Lowercase | Uppercase | ParseNumber | ParseBoolean

record field_transformation =
  ttype :: transformation_type
  pattern :: "string option"
  replacement :: "string option"
  flags :: "string option"

text \<open>An optional field of the selector is \<open>None\<close> when it is \<open>undefined\<close>.\<close>

record field_selector =
  jsonLd_path :: "string option"
  metaTags_path :: "string option"
  dataLayers_path :: "string option"
  microdata_path :: "string option"
  customDataLayers_path :: "string option"
  regex :: "string option"
  transformations :: "field_transformation list option"

datatype source_name = JsonLdS | MetaTagsS | DataLayersS | MicrodataS | CustomDataLayersS

record extracted_field =
  "value" :: jsval
  source :: source_name
  path :: string
  confidence :: rat

text \<open>\<open>data[method.source]\<close> and \<open>selector[method.key]\<close>\<close>

fun data_source :: "payload \<Rightarrow> source_name \<Rightarrow> jsval" where
  "data_source d JsonLdS = jsonLd d"
| "data_source d MetaTagsS = metaTags d"
| "data_source d DataLayersS = dataLayers d"
| "data_source d MicrodataS = microdata d"
| "data_source d CustomDataLayersS = customDataLayers d"

fun selector_key :: "field_selector \<Rightarrow> source_name \<Rightarrow> string option" where
  "selector_key s JsonLdS = jsonLd_path s"
| "selector_key s MetaTagsS = metaTags_path s"
| "selector_key s DataLayersS = dataLayers_path s"
| "selector_key s MicrodataS = microdata_path s"
| "selector_key s CustomDataLayersS = customDataLayers_path s"

text \<open>The table of the methods: key, source and confidence, in the order of preference.\<close>

definition methods :: "(source_name \<times> source_name \<times> rat) list" where
  "methods =
    [(JsonLdS, JsonLdS, 9 / 10),
     (MetaTagsS, MetaTagsS, 8 / 10),
     (DataLayersS, DataLayersS, 7 / 10),
     (MicrodataS, MicrodataS, 6 / 10),
     (CustomDataLayersS, CustomDataLayersS, 5 / 10)]"

section \<open>Transformations\<close>

text \<open>The sum type as an exception monad.\<close>

definition bind_e :: "error + 'a \<Rightarrow> ('a \<Rightarrow> error + 'b) \<Rightarrow> error + 'b" where
  "bind_e m f = (case m of Inl e \<Rightarrow> Inl e | Inr x \<Rightarrow> f x)"

text \<open>
  \<open>match[1] || match[0]\<close> on a match array: an entry that is \<open>undefined\<close>, missing
  or the empty string is falsy.
\<close>

definition entry :: "string option list \<Rightarrow> nat \<Rightarrow> jsval" where
  "entry m i = (if i < length m then (case m ! i of None \<Rightarrow> JUndefined | Some s \<Rightarrow> JStr s) else JUndefined)"

definition match_pick :: "string option list \<Rightarrow> jsval" where
  "match_pick m = (if truthy (entry m 1) then entry m 1 else entry m 0)"

text \<open>\<open>result.replace(/[^\d.-]/g, '')\<close>\<close>

definition strip_non_numeric :: "string \<Rightarrow> string" where
  "strip_non_numeric s = filter (\<lambda>c. is_digit c \<or> c = CHR ''.'' \<or> c = CHR ''-'') s"

text \<open>
  One turn of the loop over the transformations: the \<open>switch\<close>. For a number,
  \<open>isNaN(parsed)\<close> holds of \<open>NaN\<close> alone.
\<close>

definition apply_transform :: "host \<Rightarrow> field_transformation \<Rightarrow> jsval \<Rightarrow> error + jsval" where
  "apply_transform h transform result =
    (case ttype transform of
       Regex \<Rightarrow>
         (case (pattern transform, result) of
            (Some p, JStr s) \<Rightarrow>
              if p \<noteq> []
              then bind_e (re_match h p (flags transform) s)
                     (\<lambda>match. case match of None \<Rightarrow> Inr result | Some m \<Rightarrow> Inr (match_pick m))
              else Inr result
          | _ \<Rightarrow> Inr result)
     | Replace \<Rightarrow>
         (case (pattern transform, replacement transform, result) of
            (Some p, Some r, JStr s) \<Rightarrow>
              if p \<noteq> [] \<and> r \<noteq> []
              then bind_e (re_replace h p (flags transform) s r) (\<lambda>s'. Inr (JStr s'))
              else Inr result
          | _ \<Rightarrow> Inr result)
     | Trim \<Rightarrow>
         (case result of JStr s \<Rightarrow> Inr (JStr (str_trim h s)) | _ \<Rightarrow> Inr result)
     | Lowercase \<Rightarrow>
         (case result of JStr s \<Rightarrow> Inr (JStr (toLowerCase h s)) | _ \<Rightarrow> Inr result)
     | Uppercase \<Rightarrow>
         (case result of JStr s \<Rightarrow> Inr (JStr (toUpperCase h s)) | _ \<Rightarrow> Inr result)
     | ParseNumber \<Rightarrow>
         (case result of
            JStr s \<Rightarrow>
              (let parsed = parseFloat h (strip_non_numeric s)
               in if parsed \<noteq> JNaN then Inr parsed else Inr result)
          | _ \<Rightarrow> Inr result)
     | ParseBoolean \<Rightarrow>
         (case result of
            JStr s \<Rightarrow>
              Inr (JBool (toLowerCase h s \<in> set [''true'', ''yes'', ''1'', ''on'', ''enabled'']))
          | _ \<Rightarrow> Inr result))"

fun transform_loop :: "host \<Rightarrow> field_transformation list \<Rightarrow> jsval \<Rightarrow> error + jsval" where
  "transform_loop h [] result = Inr result"
| "transform_loop h (transform # rest) result =
    bind_e (apply_transform h transform result) (transform_loop h rest)"

definition applyTransformations ::
  "host \<Rightarrow> jsval \<Rightarrow> field_transformation list option \<Rightarrow> error + jsval" where
  "applyTransformations h v ts =
    (case ts of
       None \<Rightarrow> Inr v
     | Some l \<Rightarrow> if l = [] then Inr v else transform_loop h l v)"

section \<open>The processor\<close>

definition extractFromSource :: "host \<Rightarrow> jsval \<Rightarrow> string \<Rightarrow> string option" where
  "extractFromSource h src p = evaluateStructuredDataPath h src p"

text \<open>
  The step after the transformations: the selector's own regular expression, used when
  it is a non-empty string and the value is a string.
\<close>

definition apply_selector_regex :: "host \<Rightarrow> string option \<Rightarrow> jsval \<Rightarrow> error + jsval" where
  "apply_selector_regex h rx processedValue =
    (case (rx, processedValue) of
       (Some r, JStr s) \<Rightarrow>
         if r \<noteq> []
         then bind_e (re_match h r None s)
                (\<lambda>match. case match of None \<Rightarrow> Inr processedValue | Some m \<Rightarrow> Inr (match_pick m))
         else Inr processedValue
     | _ \<Rightarrow> Inr processedValue)"

text \<open>
  The loop over the methods. A method is tried when the selector has a non-empty path
  under its key and the payload's source is truthy; the first result that is neither
  \<open>null\<close> nor \<open>Not found\<close> ends the loop.
\<close>

fun process_methods ::
  "host \<Rightarrow> payload \<Rightarrow> field_selector \<Rightarrow> (source_name \<times> source_name \<times> rat) list
    \<Rightarrow> error + extracted_field option" where
  "process_methods h d s [] = Inr None"
| "process_methods h d s ((k, src, conf) # rest) =
    (case selector_key s k of
       None \<Rightarrow> process_methods h d s rest
     | Some p \<Rightarrow>
         if p \<noteq> [] \<and> truthy (data_source d src)
         then (case extractFromSource h (data_source d src) p of
                 None \<Rightarrow> process_methods h d s rest
               | Some result \<Rightarrow>
                   if result \<noteq> ''Not found''
                   then bind_e (applyTransformations h (JStr result) (transformations s))
                          (\<lambda>processedValue.
                             bind_e (apply_selector_regex h (regex s) processedValue)
                               (\<lambda>v. Inr (Some \<lparr>value = v, source = src, path = p,
                                                  confidence = conf\<rparr>)))
                   else process_methods h d s rest)
         else process_methods h d s rest)"

definition processSelector ::
  "host \<Rightarrow> payload \<Rightarrow> field_selector \<Rightarrow> error + extracted_field option" where
  "processSelector h d s = process_methods h d s methods"

text \<open>
  \<open>result[fieldName] = extracted\<close> on the result object, given by its own properties.
  Assigning an object to \<open>__proto__\<close> replaces the prototype and adds no property.
\<close>

definition assign_field ::
  "(string \<rightharpoonup> extracted_field) \<Rightarrow> string \<Rightarrow> extracted_field \<Rightarrow> (string \<rightharpoonup> extracted_field)" where
  "assign_field result fieldName extracted =
    (if fieldName = ''__proto__'' then result else result(fieldName \<mapsto> extracted))"

text \<open>
  The loop over \<open>Object.entries(selectors)\<close>, the list of the recipe's field names
  with their selectors; an exception of \<open>processSelector\<close> is not caught and ends it.
\<close>

fun recipe_loop ::
  "host \<Rightarrow> payload \<Rightarrow> (string \<times> field_selector) list \<Rightarrow> (string \<rightharpoonup> extracted_field)
    \<Rightarrow> error + (string \<rightharpoonup> extracted_field)" where
  "recipe_loop h d [] result = Inr result"
| "recipe_loop h d ((fieldName, selector) # rest) result =
    bind_e (processSelector h d selector)
      (\<lambda>extracted. case extracted of
           None \<Rightarrow> recipe_loop h d rest result
         | Some e \<Rightarrow> recipe_loop h d rest (assign_field result fieldName e))"

definition processRecipe ::
  "host \<Rightarrow> payload \<Rightarrow> (string \<times> field_selector) list \<Rightarrow> error + (string \<rightharpoonup> extracted_field)" where
  "processRecipe h d selectors = recipe_loop h d selectors Map.empty"

text \<open>
  The validation of a candidate of any type. The conjunction is evaluated from left to
  right and stops at the first false conjunct.
\<close>

definition validateStructuredData :: "host \<Rightarrow> jsval \<Rightarrow> error + bool" where
  "validateStructuredData h data =
    (if typeof data = ''object'' \<and> data \<noteq> JNull then
       bind_e (getProp h data ''jsonLd'') (\<lambda>v1.
       if \<not> isArray v1 then Inr False else
       bind_e (getProp h data ''metaTags'') (\<lambda>v2.
       if typeof v2 \<noteq> ''object'' then Inr False else
       bind_e (getProp h data ''dataLayers'') (\<lambda>v3.
       if typeof v3 \<noteq> ''object'' then Inr False else
       bind_e (getProp h data ''url'') (\<lambda>v4.
       if typeof v4 \<noteq> ''string'' then Inr False else
       bind_e (getProp h data ''pageTitle'') (\<lambda>v5.
       if typeof v5 \<noteq> ''string'' then Inr False else
       bind_e (getProp h data ''timestamp'') (\<lambda>v6.
       if typeof v6 \<noteq> ''string'' then Inr False else
       bind_e (getProp h data ''extractorVersion'') (\<lambda>v7.
       Inr (typeof v7 = ''string''))))))))
     else Inr False)"

section \<open>Notions of the specification\<close>

text \<open>A path written from its segments, with a dot between two of them.\<close>

fun dotted :: "string list \<Rightarrow> string" where
  "dotted [] = []"
| "dotted [seg] = seg"
| "dotted (seg # seg' # segs) = seg @ CHR ''.'' # dotted (seg' # segs)"



text \<open>
  A property name that a path can spell: it has no dot, and it does not hold both an
  opening and a closing bracket.
\<close>

definition plain_name :: "string \<Rightarrow> bool" where
  "plain_name seg = (CHR ''.'' \<notin> set seg \<and> \<not> (CHR ''['' \<in> set seg \<and> CHR '']'' \<in> set seg))"

text \<open>
  Following a list of property names from a value: the leaf when, at every step, the
  lookup gives a value other than \<open>undefined\<close> and \<open>null\<close>, and \<open>None\<close> when a
  segment is missing.
\<close>

fun path_leaf :: "host \<Rightarrow> jsval \<Rightarrow> string list \<Rightarrow> jsval option" where
  "path_leaf h v [] = Some v"
| "path_leaf h v (k # ks) =
    (case getProp h v k of
       Inl e \<Rightarrow> None
     | Inr c \<Rightarrow> if nullish c then None else path_leaf h c ks)"

text \<open>
  The hit of a source, if it has one: the selector has a non-empty path for the source,
  the payload's source is truthy, and the evaluator's result is a string other than
  \<open>Not found\<close>.
\<close>

definition source_hit :: "host \<Rightarrow> payload \<Rightarrow> field_selector \<Rightarrow> source_name \<Rightarrow> string option" where
  "source_hit h d s m =
    (case selector_key s m of
       None \<Rightarrow> None
     | Some p \<Rightarrow>
         if p \<noteq> [] \<and> truthy (data_source d m)
         then (case evaluateStructuredDataPath h (data_source d m) p of
                 None \<Rightarrow> None
               | Some r \<Rightarrow> if r = ''Not found'' then None else Some r)
         else None)"

text \<open>The confidence that the specification gives each source.\<close>

fun source_confidence :: "source_name \<Rightarrow> rat" where
  "source_confidence JsonLdS = 9 / 10"
| "source_confidence MetaTagsS = 8 / 10"
| "source_confidence DataLayersS = 7 / 10"
| "source_confidence MicrodataS = 6 / 10"
| "source_confidence CustomDataLayersS = 5 / 10"

definition source_order :: "source_name list" where
  "source_order = [JsonLdS, MetaTagsS, DataLayersS, MicrodataS, CustomDataLayersS]"

text \<open>
  What follows a hit: the transformations, then the selector's regular expression, then
  the field built for the source.
\<close>

definition field_of_hit ::
  "host \<Rightarrow> field_selector \<Rightarrow> source_name \<Rightarrow> string \<Rightarrow> error + extracted_field option" where
  "field_of_hit h s m r =
    bind_e (applyTransformations h (JStr r) (transformations s))
      (\<lambda>processedValue.
         bind_e (apply_selector_regex h (regex s) processedValue)
           (\<lambda>v. Inr (Some \<lparr>value = v, source = m, path = the (selector_key s m),
                              confidence = source_confidence m\<rparr>)))"

text \<open>
  The hit of one source, from the selector's path for it and the payload's data for it:
  the path is set and not empty, the data is truthy, and the evaluator's result is a
  string other than \<open>Not found\<close>. The hit holds the path and the result.
\<close>

definition path_hit :: "host \<Rightarrow> string option \<Rightarrow> jsval \<Rightarrow> (string \<times> string) option" where
  "path_hit h po src =
    (case po of
       None \<Rightarrow> None
     | Some p \<Rightarrow>
         if p \<noteq> [] \<and> truthy src
         then (case evaluateStructuredDataPath h src p of
                 None \<Rightarrow> None
               | Some r \<Rightarrow> if r = ''Not found'' then None else Some (p, r))
         else None)"

text \<open>
  The outcome of a hit for a source with a confidence: the transformations, then the
  selector's regular expression, then the field; an exception of either is the
  outcome.
\<close>

definition hit_field ::
  "host \<Rightarrow> field_selector \<Rightarrow> source_name \<Rightarrow> rat \<Rightarrow> string \<times> string
    \<Rightarrow> error + extracted_field option" where
  "hit_field h s m c pr =
    bind_e (applyTransformations h (JStr (snd pr)) (transformations s))
      (\<lambda>processedValue.
         bind_e (apply_selector_regex h (regex s) processedValue)
           (\<lambda>v. Inr (Some \<lparr>value = v, source = m, path = fst pr, confidence = c\<rparr>)))"

text \<open>
  The properties that a value has of its own, which are the data: the listed properties
  of an object, the elements and the \<open>length\<close> of an array, the characters and the
  \<open>length\<close> of a string. \<open>None\<close> says that the value has no property of that name.
\<close>

definition own_prop :: "jsval \<Rightarrow> string \<Rightarrow> jsval option" where
  "own_prop v k =
    (case v of
       JObj kvs \<Rightarrow> map_of kvs k
     | JArr xs \<Rightarrow>
         if is_array_index k
         then (if parseInt10 k < length xs then Some (xs ! parseInt10 k) else None)
         else if k = ''length'' then Some (JNum (of_nat (length xs)))
         else None
     | JStr s \<Rightarrow>
         if is_array_index k
         then (if parseInt10 k < length s then Some (JStr [s ! parseInt10 k]) else None)
         else if k = ''length'' then Some (JNum (of_nat (length s)))
         else None
     | _ \<Rightarrow> None)"

text \<open>
  Following a list of names through the data: the leaf when every name is a property
  of the value reached, with a value other than \<open>undefined\<close> and \<open>null\<close>.
\<close>

fun own_walk :: "jsval \<Rightarrow> string list \<Rightarrow> jsval option" where
  "own_walk v [] = Some v"
| "own_walk v (k # ks) =
    (case own_prop v k of
       None \<Rightarrow> None
     | Some c \<Rightarrow> if nullish c then None else own_walk c ks)"

section \<open>A host and a page for closed examples\<close>

text \<open>Decimal numerals, for the string of a whole number.\<close>

fun nat_string :: "nat \<Rightarrow> string" where
  "nat_string n =
    (if n < 10 then [''0123456789'' ! n]
     else nat_string (n div 10) @ [''0123456789'' ! (n mod 10)])"

definition int_string :: "int \<Rightarrow> string" where
  "int_string i = (if i < 0 then CHR ''-'' # nat_string (nat (- i)) else nat_string (nat i))"

definition ascii_space :: "char \<Rightarrow> bool" where
  "ascii_space c = (c \<in> set [CHR '' '', CHR 0x09, CHR 0x0A, CHR 0x0B, CHR 0x0C, CHR 0x0D])"

definition ascii_lower :: "char \<Rightarrow> char" where
  "ascii_lower c =
    (case map_of (zip ''ABCDEFGHIJKLMNOPQRSTUVWXYZ'' ''abcdefghijklmnopqrstuvwxyz'') c of
       None \<Rightarrow> c
     | Some l \<Rightarrow> l)"

definition ascii_upper :: "char \<Rightarrow> char" where
  "ascii_upper c =
    (case map_of (zip ''abcdefghijklmnopqrstuvwxyz'' ''ABCDEFGHIJKLMNOPQRSTUVWXYZ'') c of
       None \<Rightarrow> c
     | Some u \<Rightarrow> u)"

text \<open>
  The match arrays of ECMAScript for the patterns and subjects of the examples, each
  without flags: \<open>"USD".match(/([0-9]*)USD/)\<close> is \<open>["USD", ""]\<close>,
  \<open>"1399.00".match(/([0-9]+)/)\<close> is \<open>["1399", "1399"]\<close>, and
  \<open>"1399.00".match(/[0-9]+/)\<close> is \<open>["1399"]\<close>.
\<close>

definition example_matches :: "((string \<times> string option \<times> string) \<times> string option list) list" where
  "example_matches =
    [((''([0-9]*)USD'', None, ''USD''), [Some ''USD'', Some []]),
     ((''([0-9]+)'', None, ''1399.00''), [Some ''1399'', Some ''1399'']),
     ((''[0-9]+'', None, ''1399.00''), [Some ''1399''])]"

text \<open>
  The numbers of ECMAScript's \<open>parseFloat\<close> for the strings of the examples:
  \<open>0.1\<close> is no binary64 value and is rounded to the nearest one,
  \<open>9007199254740993\<close> lies halfway between two and is rounded to the even one, a
  one with 309 zeros is beyond the range, and \<open>-0\<close> is negative zero.
\<close>

definition example_numbers :: "(string \<times> jsval) list" where
  "example_numbers =
    [(''1399.00'', JNum 1399),
     (''1399'', JNum 1399),
     (''-12.50'', JNum (- (25 / 2))),
     (''0.1'', JNum (3602879701896397 / 36028797018963968)),
     (''9007199254740993'', JNum 9007199254740992),
     (CHR ''1'' # replicate 309 CHR ''0'', JPosInfinity),
     (''-0'', JNegZero)]"

text \<open>
  \<open>String(v)\<close> for the values that JSON gives, with whole numbers: an array is the
  strings of its elements joined by commas, where \<open>undefined\<close> and \<open>null\<close> give the
  empty string; a plain object is \<open>[object Object]\<close>, unless it has a property
  \<open>toString\<close> of its own, which hides the method and makes the conversion throw.
\<close>

fun plain_string :: "jsval \<Rightarrow> error + string"
  and plain_join :: "jsval list \<Rightarrow> error + string" where
  "plain_string JUndefined = Inr ''undefined''"
| "plain_string JNull = Inr ''null''"
| "plain_string (JBool b) = Inr (if b then ''true'' else ''false'')"
| "plain_string (JNum r) = Inr (int_string \<lfloor>r\<rfloor>)"
| "plain_string JNaN = Inr ''NaN''"
| "plain_string JPosInfinity = Inr ''Infinity''"
| "plain_string JNegInfinity = Inr ''-Infinity''"
| "plain_string JNegZero = Inr ''0''"
| "plain_string (JStr s) = Inr s"
| "plain_string (JFunction src) = Inr src"
| "plain_string (JObj kvs) =
    (if ''toString'' \<in> fst ` set kvs then Inl TypeError else Inr ''[object Object]'')"
| "plain_string (JArr xs) = plain_join xs"
| "plain_join [] = Inr []"
| "plain_join [x] = (if nullish x then Inr [] else plain_string x)"
| "plain_join (x # y # ys) =
    bind_e (if nullish x then Inr [] else plain_string x)
      (\<lambda>a. bind_e (plain_join (y # ys)) (\<lambda>b. Inr (a @ CHR '','' # b)))"

text \<open>
  A host for examples over ASCII strings, whole numbers and the values that JSON gives.
  Its matches and its numbers are the tables above, where it answers as ECMAScript
  does; every other pattern finds no match and no replacement finds one, but for the
  unclosed group \<open>(\<close>, which no \<open>RegExp\<close> accepts, and every other string parses
  to \<open>NaN\<close>, as the strings without a digit do. Its prototypes are empty. The
  examples use it only where it agrees with ECMAScript.
\<close>

definition example_host :: host where
  "example_host =
    \<lparr>numToString = (\<lambda>r. int_string \<lfloor>r\<rfloor>),
     parseFloat = (\<lambda>s. case map_of example_numbers s of None \<Rightarrow> JNaN | Some n \<Rightarrow> n),
     objectToString = plain_string,
     inherited = (\<lambda>v k. JUndefined),
     re_match = (\<lambda>p f s. if p = ''('' then Inl SyntaxError
                          else Inr (map_of example_matches (p, f, s))),
     re_replace = (\<lambda>p f s r. if p = ''('' then Inl SyntaxError else Inr s),
     str_trim = (\<lambda>s. rev (dropWhile ascii_space (rev (dropWhile ascii_space s)))),
     toLowerCase = map ascii_lower,
     toUpperCase = map ascii_upper\<rparr>"

text \<open>
  The host of the examples with prototypes that are not empty: an object inherits
  \<open>constructor\<close> and \<open>toString\<close>, an array \<open>constructor\<close>, and the constructor of
  objects has the name \<open>Object\<close>.
\<close>

definition proto_host :: host where
  "proto_host =
    example_host
      \<lparr>inherited :=
         (\<lambda>v k. case v of
                  JObj kvs \<Rightarrow>
                    if k = ''constructor'' then JFunction ''function Object() { [native code] }''
                    else if k = ''toString''
                    then JFunction ''function toString() { [native code] }''
                    else JUndefined
                | JArr xs \<Rightarrow>
                    if k = ''constructor'' then JFunction ''function Array() { [native code] }''
                    else JUndefined
                | JFunction src \<Rightarrow>
                    if k = ''name'' \<and> src = ''function Object() { [native code] }''
                    then JStr ''Object''
                    else JUndefined
                | _ \<Rightarrow> JUndefined)\<rparr>"

definition example_payload :: payload where
  "example_payload =
    \<lparr>version = None,
     jsonLd = JArr [JObj [(''@type'', JStr ''Product''),
                          (''name'', JStr ''Laptop''),
                          (''sku'', JNull),
                          (''offers'', JObj [(''price'', JStr ''1399.00''),
                                             (''priceCurrency'', JStr ''USD'')])]],
     metaTags = JObj [(''og:title'', JStr ''Laptop - Shop''),
                      (''og:availability'', JStr ''Not found'')],
     dataLayers = JObj [(''dataLayer'',
                         JArr [JObj [(''product'', JObj [(''name'', JStr ''Laptop DL''),
                                                         (''stock'', JNum 20)])]])],
     microdata = JUndefined,
     customDataLayers = JUndefined,
     url = ''https://shop.example/laptop'',
     pageTitle = ''Laptop'',
     timestamp = ''2025-01-23T00:00:00.000Z'',
     extractorVersion = ''1.0.0''\<rparr>"

text \<open>The page with microdata and a custom data layer as well.\<close>

definition full_payload :: payload where
  "full_payload =
    example_payload
      \<lparr>microdata := JArr [JObj [(''@type'', JStr ''https://schema.org/Product''),
                                (''name'', JStr ''Laptop MD'')]],
       customDataLayers := JObj [(''shop'', JObj [(''name'', JStr ''Laptop CDL'')])]\<rparr>"

text \<open>A selector with no path, regular expression or transformation.\<close>

definition empty_selector :: field_selector where
  "empty_selector =
    \<lparr>jsonLd_path = None, metaTags_path = None, dataLayers_path = None,
     microdata_path = None, customDataLayers_path = None, regex = None,
     transformations = None\<rparr>"

definition transformation :: "transformation_type \<Rightarrow> field_transformation" where
  "transformation t = \<lparr>ttype = t, pattern = None, replacement = None, flags = None\<rparr>"

text \<open>Selectors of the examples.\<close>

definition priority_selector :: field_selector where
  "priority_selector =
    empty_selector
      \<lparr>jsonLd_path := Some ''0.name'',
       metaTags_path := Some ''og:title'',
       dataLayers_path := Some ''dataLayer[0].product.name''\<rparr>"

definition missing_selector :: field_selector where
  "missing_selector =
    empty_selector
      \<lparr>jsonLd_path := Some ''0.sku'',
       metaTags_path := Some ''og:availability'',
       dataLayers_path := Some ''dataLayer[0].product.brand'',
       microdata_path := Some ''0.name''\<rparr>"



definition price_selector :: field_selector where
  "price_selector =
    empty_selector
      \<lparr>jsonLd_path := Some ''0.offers.price'',
       transformations := Some [transformation ParseNumber]\<rparr>"

definition unclosed_selector :: field_selector where
  "unclosed_selector =
    empty_selector \<lparr>jsonLd_path := Some ''0.offers.price'', regex := Some ''(''\<rparr>"

definition example_recipe :: "(string \<times> field_selector) list" where
  "example_recipe =
    [(''productName'', priority_selector), (''sku'', missing_selector),
     (''price'', price_selector)]"

text \<open>A candidate payload whose \<open>metaTags\<close> and \<open>dataLayers\<close> are \<open>null\<close>.\<close>

definition null_tables_candidate :: jsval where
  "null_tables_candidate =
    JObj [(''jsonLd'', JArr []), (''metaTags'', JNull), (''dataLayers'', JNull),
          (''url'', JStr ''https://shop.example/laptop''), (''pageTitle'', JStr ''Laptop''),
          (''timestamp'', JStr ''2025-01-23T00:00:00.000Z''),
          (''extractorVersion'', JStr ''1.0.0'')]"

section \<open>Properties of the path evaluator\<close>

subsection \<open>Splitting a path\<close>

lemma split_on_nonempty: "split_on sep s \<noteq> []"
  by (induction s) (auto split: list.splits)

lemma split_on_no_sep: "sep \<notin> set s \<Longrightarrow> split_on sep s = [s]"
  by (induction s) auto

lemma split_on_append:
  "sep \<notin> set s \<Longrightarrow> split_on sep (s @ sep # t) = s # split_on sep t"
  by (induction s) (auto split: list.splits simp: split_on_nonempty)

lemma split_on_dotted:
  "segs \<noteq> [] \<Longrightarrow> \<forall>seg \<in> set segs. CHR ''.'' \<notin> set seg \<Longrightarrow>
   split_on CHR ''.'' (dotted segs) = segs"
  by (induction segs rule: dotted.induct) (auto simp: split_on_no_sep split_on_append)

lemma getProp_defined: "\<not> nullish v \<Longrightarrow> \<exists>c. getProp h v k = Inr c"
  by (cases v) (simp_all add: getProp_def)

lemma truthy_not_nullish: "truthy v \<Longrightarrow> \<not> nullish v"
  by (cases v) simp_all

lemma eval_part_plain:
  "\<not> (CHR ''['' \<in> set seg \<and> CHR '']'' \<in> set seg) \<Longrightarrow>
   eval_part h current seg =
     (case getProp h current seg of Inl e \<Rightarrow> Inl e | Inr c \<Rightarrow> Inr (Some c))"
  by (auto simp: eval_part_def)

lemma eval_parts_plain:
  "\<not> nullish v \<Longrightarrow> list_all plain_name segs \<Longrightarrow>
   eval_parts h v segs = Inr (path_leaf h v segs)"
proof (induction segs arbitrary: v)
  case Nil
  then show ?case by simp
next
  case (Cons k ks)
  from Cons.prems(1) obtain c where c: "getProp h v k = Inr c"
    using getProp_defined by blast
  from Cons.prems(2) have pk: "\<not> (CHR ''['' \<in> set k \<and> CHR '']'' \<in> set k)"
    by (simp add: plain_name_def)
  from Cons.prems(2) have pks: "list_all plain_name ks"
    by simp
  show ?case
  proof (cases "nullish c")
    case True
    then show ?thesis by (simp add: eval_part_plain [OF pk] c)
  next
    case False
    then show ?thesis
      using Cons.IH [OF False pks] by (simp add: eval_part_plain [OF pk] c)
  qed
qed

lemma path_leaf_not_nullish:
  "path_leaf h v segs = Some leaf \<Longrightarrow> segs \<noteq> [] \<Longrightarrow> \<not> nullish leaf"
proof (induction segs arbitrary: v)
  case Nil
  then show ?case by simp
next
  case (Cons k ks)
  then show ?case
    by (cases ks) (auto split: sum.splits if_splits)
qed

lemma evaluate_plain_path:
  assumes "truthy obj" "segs \<noteq> []" "list_all plain_name segs" "dotted segs \<noteq> []"
  shows "evaluateStructuredDataPath h obj (dotted segs) =
    (case path_leaf h obj segs of
       None \<Rightarrow> None
     | Some leaf \<Rightarrow> (case js_String h leaf of Inl e \<Rightarrow> None | Inr str \<Rightarrow> Some str))"
proof -
  have nodots: "\<forall>seg \<in> set segs. CHR ''.'' \<notin> set seg"
    using assms(3) by (simp add: list_all_iff plain_name_def)
  have split: "split_on CHR ''.'' (dotted segs) = segs"
    using split_on_dotted [OF assms(2) nodots] .
  have parts: "eval_parts h obj segs = Inr (path_leaf h obj segs)"
    using eval_parts_plain [OF truthy_not_nullish [OF assms(1)] assms(3)] .
  show ?thesis
  proof (cases "path_leaf h obj segs")
    case None
    then show ?thesis
      using assms(1,4)
      by (simp add: evaluateStructuredDataPath_def evaluate_try_def split parts)
  next
    case (Some leaf)
    then have "\<not> nullish leaf" using path_leaf_not_nullish assms(2) by blast
    then show ?thesis
      using assms(1,4) Some
      by (simp add: evaluateStructuredDataPath_def evaluate_try_def split parts
          split: sum.splits)
  qed
qed

lemma eval_parts_append:
  "eval_parts h v pre = Inr (Some cur) \<Longrightarrow>
   eval_parts h v (pre @ rest) = eval_parts h cur rest"
proof (induction pre arbitrary: v)
  case Nil
  then show ?case by simp
next
  case (Cons p ps)
  then show ?case
    by (auto split: sum.splits option.splits if_splits)
qed

lemma eval_parts_missing:
  assumes "eval_parts h v pre = Inr (Some cur)"
    and "eval_part h cur seg = Inr None \<or>
         (\<exists>c. eval_part h cur seg = Inr (Some c) \<and> nullish c)"
  shows "eval_parts h v (pre @ seg # post) = Inr None"
  using assms(2) by (auto simp: eval_parts_append [OF assms(1)])

lemma evaluate_missing_segment:
  assumes "\<forall>x \<in> set (pre @ seg # post). CHR ''.'' \<notin> set x"
    and "eval_parts h obj pre = Inr (Some cur)"
    and "eval_part h cur seg = Inr None \<or>
         (\<exists>c. eval_part h cur seg = Inr (Some c) \<and> nullish c)"
  shows "evaluateStructuredDataPath h obj (dotted (pre @ seg # post)) = None"
proof -
  have "split_on CHR ''.'' (dotted (pre @ seg # post)) = pre @ seg # post"
    using split_on_dotted [OF _ assms(1)] by simp
  then show ?thesis
    using eval_parts_missing [OF assms(2,3)]
    by (simp add: evaluateStructuredDataPath_def evaluate_try_def)
qed

lemma evaluate_falsy:
  "\<not> truthy obj \<or> p = [] \<Longrightarrow> evaluateStructuredDataPath h obj p = None"
  by (auto simp: evaluateStructuredDataPath_def evaluate_try_def)

subsection \<open>Segments with brackets\<close>











lemmas eval_defs =
  evaluateStructuredDataPath_def evaluate_try_def eval_part_def indexOf_def is_digit_def
  parseInt10_def digit_val_def elemAt_def getProp_def is_array_index_def

subsection \<open>Names in the data\<close>

lemma getProp_own_Some: "own_prop v k = Some c \<Longrightarrow> getProp h v k = Inr c"
  by (cases v) (auto simp: own_prop_def getProp_def split: if_splits)

lemma getProp_own_None:
  "own_prop v k = None \<Longrightarrow> \<not> nullish v \<Longrightarrow> nullish (inherited h v k) \<Longrightarrow>
   \<exists>c. getProp h v k = Inr c \<and> nullish c"
  by (cases v) (auto simp: own_prop_def getProp_def split: if_splits)

lemma own_walk_path_leaf:
  "own_walk v segs = Some leaf \<Longrightarrow> path_leaf h v segs = Some leaf"
proof (induction segs arbitrary: v)
  case Nil
  then show ?case by simp
next
  case (Cons k ks)
  from Cons.prems obtain c where c: "own_prop v k = Some c" "\<not> nullish c"
    "own_walk c ks = Some leaf"
    by (auto split: option.splits if_splits)
  from Cons.IH [OF c(3)] c(2) getProp_own_Some [OF c(1)]
  show ?case by simp
qed

lemma own_walk_not_nullish:
  "own_walk v segs = Some cur \<Longrightarrow> \<not> nullish v \<Longrightarrow> \<not> nullish cur"
proof (induction segs arbitrary: v)
  case Nil
  then show ?case by simp
next
  case (Cons k ks)
  then show ?case by (auto split: option.splits if_splits)
qed

lemma evaluate_own_path:
  assumes "truthy obj" "segs \<noteq> []" "list_all plain_name segs" "dotted segs \<noteq> []"
    and "own_walk obj segs = Some leaf"
  shows "evaluateStructuredDataPath h obj (dotted segs) =
    (case js_String h leaf of Inl e \<Rightarrow> None | Inr str \<Rightarrow> Some str)"
  using evaluate_plain_path [OF assms(1-4), of h] own_walk_path_leaf [OF assms(5), of h]
  by simp

lemma eval_parts_own_walk:
  "own_walk v pre = Some cur \<Longrightarrow> \<not> nullish v \<Longrightarrow> list_all plain_name pre \<Longrightarrow>
   eval_parts h v pre = Inr (Some cur)"
  using eval_parts_plain [of v pre h] own_walk_path_leaf [of v pre cur h] by simp

lemma evaluate_own_missing:
  assumes "list_all plain_name pre" "plain_name k"
    and "list_all (\<lambda>x. CHR ''.'' \<notin> set x) post"
    and "own_walk obj pre = Some cur"
    and "own_prop cur k = None \<and> nullish (inherited h cur k) \<or>
         (\<exists>c. own_prop cur k = Some c \<and> nullish c)"
  shows "evaluateStructuredDataPath h obj (dotted (pre @ k # post)) = None"
proof (cases "truthy obj")
  case False
  then show ?thesis by (simp add: evaluate_falsy)
next
  case True
  then have nn: "\<not> nullish obj" by (rule truthy_not_nullish)
  have cur: "\<not> nullish cur" using own_walk_not_nullish [OF assms(4) nn] .
  have pre: "eval_parts h obj pre = Inr (Some cur)"
    using eval_parts_own_walk [OF assms(4) nn assms(1)] .
  have "\<exists>c. getProp h cur k = Inr c \<and> nullish c"
    using assms(5) getProp_own_None [OF _ cur, of k h] getProp_own_Some [of cur k _ h]
    by auto
  then obtain c where c: "getProp h cur k = Inr c" "nullish c" by blast
  have pk: "\<not> (CHR ''['' \<in> set k \<and> CHR '']'' \<in> set k)"
    using assms(2) by (simp add: plain_name_def)
  have part: "eval_part h cur k = Inr None \<or>
      (\<exists>c. eval_part h cur k = Inr (Some c) \<and> nullish c)"
    using c by (simp add: eval_part_plain [OF pk])
  have nodots: "\<forall>x \<in> set (pre @ k # post). CHR ''.'' \<notin> set x"
    using assms(1,2,3) by (auto simp: list_all_iff plain_name_def)
  show ?thesis using evaluate_missing_segment [OF nodots pre part] .
qed

text \<open>
  The lookup of the code goes on to the prototype chain: a name that is not in the data
  resolves when the value inherits it.
\<close>

lemma evaluate_inherited_name:
  "own_prop (JObj []) ''constructor'' = None
   \<and> evaluateStructuredDataPath proto_host (JObj []) ''constructor.name'' = Some ''Object''"
  by (simp add: own_prop_def eval_defs proto_host_def example_host_def)

section \<open>The claims about the path evaluator\<close>



text \<open>
  Claim C3, as amended. The evaluator returns a string or \<open>null\<close> and never throws:
  a falsy value (\<open>undefined\<close>, \<open>null\<close>, \<open>false\<close>, zero, the empty string) or an empty
  path gives \<open>null\<close>, and so does every exception inside the evaluation. For a truthy
  value and a non-empty path of names that a path can spell (no dot, not both
  brackets), each a property of the data with a value other than \<open>undefined\<close> and
  \<open>null\<close>, the result is the string of the leaf, or \<open>null\<close> when the conversion of the
  leaf to a string throws; strings, numbers and booleans always convert. A path that
  reaches, through such names, a name that is missing from the data returns \<open>null\<close>,
  whatever follows it, when the value reached does not inherit a property of that name;
  and so does a path that reaches a property whose value is \<open>undefined\<close> or \<open>null\<close>.
  Nothing is said of a name that is not in the data and is inherited.
\<close>

theorem evaluate_total_and_plain_paths:
  "(\<not> truthy obj \<or> p = [] \<longrightarrow> evaluateStructuredDataPath h obj p = None)
   \<and> ((\<exists>e. evaluate_try h obj p = Inl e) \<longrightarrow> evaluateStructuredDataPath h obj p = None)
   \<and> (truthy obj \<and> segs \<noteq> [] \<and> list_all plain_name segs \<and> dotted segs \<noteq> [] \<and>
       own_walk obj segs = Some leaf \<longrightarrow>
        evaluateStructuredDataPath h obj (dotted segs) =
          (case js_String h leaf of Inl e \<Rightarrow> None | Inr str \<Rightarrow> Some str))
   \<and> js_String h (JStr str) = Inr str
   \<and> js_String h (JNum r) = Inr (numToString h r)
   \<and> js_String h (JBool b) = Inr (if b then ''true'' else ''false'')
   \<and> (list_all plain_name pre \<and> plain_name k \<and> list_all (\<lambda>x. CHR ''.'' \<notin> set x) post \<and>
       own_walk obj pre = Some cur \<and>
       own_prop cur k = None \<and> nullish (inherited h cur k) \<longrightarrow>
        evaluateStructuredDataPath h obj (dotted (pre @ k # post)) = None)
   \<and> (list_all plain_name pre \<and> plain_name k \<and> list_all (\<lambda>x. CHR ''.'' \<notin> set x) post \<and>
       own_walk obj pre = Some cur \<and>
       own_prop cur k = Some c \<and> nullish c \<longrightarrow>
        evaluateStructuredDataPath h obj (dotted (pre @ k # post)) = None)"
proof (intro conjI impI)
  assume "\<not> truthy obj \<or> p = []"
  then show "evaluateStructuredDataPath h obj p = None" by (rule evaluate_falsy)
next
  assume "\<exists>e. evaluate_try h obj p = Inl e"
  then show "evaluateStructuredDataPath h obj p = None"
    by (auto simp: evaluateStructuredDataPath_def)
next
  assume "truthy obj \<and> segs \<noteq> [] \<and> list_all plain_name segs \<and> dotted segs \<noteq> [] \<and>
       own_walk obj segs = Some leaf"
  then show "evaluateStructuredDataPath h obj (dotted segs) =
          (case js_String h leaf of Inl e \<Rightarrow> None | Inr str \<Rightarrow> Some str)"
    using evaluate_own_path by blast
next
  assume "list_all plain_name pre \<and> plain_name k \<and> list_all (\<lambda>x. CHR ''.'' \<notin> set x) post \<and>
       own_walk obj pre = Some cur \<and>
       own_prop cur k = None \<and> nullish (inherited h cur k)"
  then show "evaluateStructuredDataPath h obj (dotted (pre @ k # post)) = None"
    using evaluate_own_missing [of pre k post obj cur h] by blast
next
  assume "list_all plain_name pre \<and> plain_name k \<and> list_all (\<lambda>x. CHR ''.'' \<notin> set x) post \<and>
       own_walk obj pre = Some cur \<and>
       own_prop cur k = Some c \<and> nullish c"
  then show "evaluateStructuredDataPath h obj (dotted (pre @ k # post)) = None"
    using evaluate_own_missing [of pre k post obj cur h] by blast
qed simp_all

theorem evaluate_total_and_plain_paths_witness:
  "evaluateStructuredDataPath proto_host (JStr []) ''length'' = None
   \<and> evaluateStructuredDataPath proto_host (jsonLd example_payload) [] = None
   \<and> evaluateStructuredDataPath proto_host (jsonLd example_payload) ''0.offers.price'' =
       Some ''1399.00''
   \<and> evaluateStructuredDataPath proto_host (dataLayers example_payload)
       ''dataLayer.0.product.stock'' = Some ''20''
   \<and> evaluateStructuredDataPath proto_host (JObj [(''inStock'', JBool True)]) ''inStock'' =
       Some ''true''
   \<and> own_prop (JObj [(''@type'', JStr ''Product''), (''name'', JStr ''Laptop''),
                      (''sku'', JNull),
                      (''offers'', JObj [(''price'', JStr ''1399.00''),
                                         (''priceCurrency'', JStr ''USD'')])]) ''brand'' = None
   \<and> evaluateStructuredDataPath proto_host (jsonLd example_payload) ''0.brand.name'' = None
   \<and> evaluateStructuredDataPath proto_host (jsonLd example_payload) ''0.offers.tax'' = None
   \<and> evaluateStructuredDataPath proto_host (jsonLd example_payload) ''0.sku'' = None
   \<and> evaluate_try proto_host (JObj [(''a'', JObj [(''toString'', JStr ''x'')])]) ''a'' =
       Inl TypeError
   \<and> evaluateStructuredDataPath proto_host
       (JObj [(''a'', JObj [(''toString'', JStr ''x'')])]) ''a'' = None"
proof -
  define product where "product =
    JObj [(''@type'', JStr ''Product''), (''name'', JStr ''Laptop''), (''sku'', JNull),
          (''offers'', JObj [(''price'', JStr ''1399.00''), (''priceCurrency'', JStr ''USD'')])]"
  define offers where "offers =
    JObj [(''price'', JStr ''1399.00''), (''priceCurrency'', JStr ''USD'')]"
  note ev = own_prop_def is_array_index_def is_digit_def parseInt10_def digit_val_def
  note t = evaluate_total_and_plain_paths
  have a: "evaluateStructuredDataPath proto_host (JStr []) ''length'' = None"
    using t [where obj = "JStr []" and p = "''length''" and h = proto_host and segs = "[]"
        and leaf = JNull and str = "[]" and r = 0 and b = True and pre = "[]" and k = "[]"
        and post = "[]" and cur = JNull and c = JNull]
    by simp
  have a2: "evaluateStructuredDataPath proto_host (jsonLd example_payload) [] = None"
    using t [where obj = "jsonLd example_payload" and p = "[]" and h = proto_host
        and segs = "[]" and leaf = JNull and str = "[]" and r = 0 and b = True and pre = "[]"
        and k = "[]" and post = "[]" and cur = JNull and c = JNull]
    by simp
  have tr: "truthy (jsonLd example_payload)" "truthy (dataLayers example_payload)"
    by (simp_all add: example_payload_def)
  have plain: "list_all plain_name [''0'', ''offers'', ''price'']"
    "list_all plain_name [''dataLayer'', ''0'', ''product'', ''stock'']"
    "list_all plain_name [''0'']" "list_all plain_name [''0'', ''offers'']"
    "plain_name ''brand''" "plain_name ''tax''" "plain_name ''sku''"
    "list_all plain_name [''inStock'']"
    by (simp_all add: plain_name_def)
  have w1: "own_walk (jsonLd example_payload) [''0'', ''offers'', ''price''] =
      Some (JStr ''1399.00'')"
    by (simp add: example_payload_def ev)
  have "truthy (jsonLd example_payload) \<and> [''0'', ''offers'', ''price''] \<noteq> [] \<and>
      list_all plain_name [''0'', ''offers'', ''price''] \<and>
      dotted [''0'', ''offers'', ''price''] \<noteq> [] \<and>
      own_walk (jsonLd example_payload) [''0'', ''offers'', ''price''] =
        Some (JStr ''1399.00'') \<longrightarrow>
      evaluateStructuredDataPath proto_host (jsonLd example_payload)
        (dotted [''0'', ''offers'', ''price'']) =
      (case js_String proto_host (JStr ''1399.00'') of Inl e \<Rightarrow> None | Inr str \<Rightarrow> Some str)"
    using t [where obj = "jsonLd example_payload" and p = "[]" and h = proto_host
        and segs = "[''0'', ''offers'', ''price'']" and leaf = "JStr ''1399.00''"
        and str = "[]" and r = 0 and b = True and pre = "[]" and k = "[]" and post = "[]"
        and cur = JNull and c = JNull]
    by (elim conjE)
  then have b: "evaluateStructuredDataPath proto_host (jsonLd example_payload)
      ''0.offers.price'' = Some ''1399.00''"
    using tr plain w1 by simp
  have w2: "own_walk (dataLayers example_payload)
      [''dataLayer'', ''0'', ''product'', ''stock''] = Some (JNum 20)"
    by (simp add: example_payload_def ev)
  have "truthy (dataLayers example_payload) \<and>
      [''dataLayer'', ''0'', ''product'', ''stock''] \<noteq> [] \<and>
      list_all plain_name [''dataLayer'', ''0'', ''product'', ''stock''] \<and>
      dotted [''dataLayer'', ''0'', ''product'', ''stock''] \<noteq> [] \<and>
      own_walk (dataLayers example_payload) [''dataLayer'', ''0'', ''product'', ''stock''] =
        Some (JNum 20) \<longrightarrow>
      evaluateStructuredDataPath proto_host (dataLayers example_payload)
        (dotted [''dataLayer'', ''0'', ''product'', ''stock'']) =
      (case js_String proto_host (JNum 20) of Inl e \<Rightarrow> None | Inr str \<Rightarrow> Some str)"
    using t [where obj = "dataLayers example_payload" and p = "[]" and h = proto_host
        and segs = "[''dataLayer'', ''0'', ''product'', ''stock'']" and leaf = "JNum 20"
        and str = "[]" and r = 0 and b = True and pre = "[]" and k = "[]" and post = "[]"
        and cur = JNull and c = JNull]
    by (elim conjE)
  then have c: "evaluateStructuredDataPath proto_host (dataLayers example_payload)
      ''dataLayer.0.product.stock'' = Some ''20''"
    using tr plain w2 by (simp add: proto_host_def example_host_def int_string_def)
  have "truthy (JObj [(''inStock'', JBool True)]) \<and> [''inStock''] \<noteq> [] \<and>
      list_all plain_name [''inStock''] \<and> dotted [''inStock''] \<noteq> [] \<and>
      own_walk (JObj [(''inStock'', JBool True)]) [''inStock''] = Some (JBool True) \<longrightarrow>
      evaluateStructuredDataPath proto_host (JObj [(''inStock'', JBool True)])
        (dotted [''inStock'']) =
      (case js_String proto_host (JBool True) of Inl e \<Rightarrow> None | Inr str \<Rightarrow> Some str)"
    using t [where obj = "JObj [(''inStock'', JBool True)]" and p = "[]" and h = proto_host
        and segs = "[''inStock'']" and leaf = "JBool True"
        and str = "[]" and r = 0 and b = True and pre = "[]" and k = "[]" and post = "[]"
        and cur = JNull and c = JNull]
    by (elim conjE)
  then have c2: "evaluateStructuredDataPath proto_host (JObj [(''inStock'', JBool True)])
      ''inStock'' = Some ''true''"
    using plain by (simp add: ev)
  have pre: "own_walk (jsonLd example_payload) [''0''] = Some product"
    "own_walk (jsonLd example_payload) [''0'', ''offers''] = Some offers"
    by (simp_all add: example_payload_def ev product_def offers_def)
  have own: "own_prop product ''brand'' = None" "own_prop offers ''tax'' = None"
    "own_prop product ''sku'' = Some JNull"
    by (simp_all add: own_prop_def product_def offers_def)
  have inh: "nullish (inherited proto_host product ''brand'')"
    "nullish (inherited proto_host offers ''tax'')"
    by (simp_all add: proto_host_def product_def offers_def)
  have nd: "list_all (\<lambda>x. CHR ''.'' \<notin> set x) [''name'']"
    "list_all (\<lambda>x. CHR ''.'' \<notin> set x) []"
    by simp_all
  have "list_all plain_name [''0''] \<and> plain_name ''brand'' \<and>
      list_all (\<lambda>x. CHR ''.'' \<notin> set x) [''name''] \<and>
      own_walk (jsonLd example_payload) [''0''] = Some product \<and>
      own_prop product ''brand'' = None \<and> nullish (inherited proto_host product ''brand'') \<longrightarrow>
      evaluateStructuredDataPath proto_host (jsonLd example_payload)
        (dotted ([''0''] @ ''brand'' # [''name''])) = None"
    using t [where obj = "jsonLd example_payload" and p = "[]" and h = proto_host
        and segs = "[]" and leaf = JNull and str = "[]" and r = 0 and b = True
        and pre = "[''0'']" and k = "''brand''" and post = "[''name'']"
        and cur = product and c = JNull]
    by (elim conjE)
  then have d: "evaluateStructuredDataPath proto_host (jsonLd example_payload)
      ''0.brand.name'' = None"
    using plain nd pre own inh by simp
  have "list_all plain_name [''0'', ''offers''] \<and> plain_name ''tax'' \<and>
      list_all (\<lambda>x. CHR ''.'' \<notin> set x) [] \<and>
      own_walk (jsonLd example_payload) [''0'', ''offers''] = Some offers \<and>
      own_prop offers ''tax'' = None \<and> nullish (inherited proto_host offers ''tax'') \<longrightarrow>
      evaluateStructuredDataPath proto_host (jsonLd example_payload)
        (dotted ([''0'', ''offers''] @ ''tax'' # [])) = None"
    using t [where obj = "jsonLd example_payload" and p = "[]" and h = proto_host
        and segs = "[]" and leaf = JNull and str = "[]" and r = 0 and b = True
        and pre = "[''0'', ''offers'']" and k = "''tax''" and post = "[]"
        and cur = offers and c = JNull]
    by (elim conjE)
  then have d2: "evaluateStructuredDataPath proto_host (jsonLd example_payload)
      ''0.offers.tax'' = None"
    using plain nd pre own inh by simp
  have "list_all plain_name [''0''] \<and> plain_name ''sku'' \<and>
      list_all (\<lambda>x. CHR ''.'' \<notin> set x) [] \<and>
      own_walk (jsonLd example_payload) [''0''] = Some product \<and>
      own_prop product ''sku'' = Some JNull \<and> nullish JNull \<longrightarrow>
      evaluateStructuredDataPath proto_host (jsonLd example_payload)
        (dotted ([''0''] @ ''sku'' # [])) = None"
    using t [where obj = "jsonLd example_payload" and p = "[]" and h = proto_host
        and segs = "[]" and leaf = JNull and str = "[]" and r = 0 and b = True
        and pre = "[''0'']" and k = "''sku''" and post = "[]"
        and cur = product and c = JNull]
    by (elim conjE)
  then have d3: "evaluateStructuredDataPath proto_host (jsonLd example_payload)
      ''0.sku'' = None"
    using plain nd pre own by simp
  have raise: "evaluate_try proto_host (JObj [(''a'', JObj [(''toString'', JStr ''x'')])]) ''a'' =
      Inl TypeError"
    by (simp add: evaluate_try_def eval_part_def getProp_def proto_host_def example_host_def)
  have e: "evaluateStructuredDataPath proto_host
      (JObj [(''a'', JObj [(''toString'', JStr ''x'')])]) ''a'' = None"
    using t [where obj = "JObj [(''a'', JObj [(''toString'', JStr ''x'')])]" and p = "''a''"
        and h = proto_host and segs = "[]" and leaf = JNull and str = "[]" and r = 0
        and b = True and pre = "[]" and k = "[]" and post = "[]" and cur = JNull and c = JNull]
      raise
    by simp
  from a a2 b c c2 own(1) d d2 d3 raise e show ?thesis
    unfolding product_def by (intro conjI)
qed

text \<open>
  The claim as first stated fails on a property that exists with the value \<open>null\<close>:
  the string of its leaf would be \<open>null\<close> spelled out, and the evaluator returns
  \<open>null\<close> itself.
\<close>

theorem evaluate_null_leaf_counterexample:
  "map_of [(''a'', JNull)] ''a'' = Some JNull
   \<and> getProp example_host (JObj [(''a'', JNull)]) ''a'' = Inr JNull
   \<and> js_String example_host JNull = Inr ''null''
   \<and> evaluateStructuredDataPath example_host (JObj [(''a'', JNull)]) ''a'' = None"
  by (simp add: eval_defs)

section \<open>Properties of the transformations\<close>

lemma bind_e_simps:
  "bind_e (Inr x) f = f x"
  "bind_e (Inl e) f = Inl e"
  by (simp_all add: bind_e_def)

lemma bind_e_Inr: "bind_e m Inr = m"
  by (cases m) (simp_all add: bind_e_def)

lemma bind_e_assoc: "bind_e (bind_e m f) g = bind_e m (\<lambda>x. bind_e (f x) g)"
  by (cases m) (simp_all add: bind_e_def)

lemma transform_loop_append:
  "transform_loop h (ts @ us) v = bind_e (transform_loop h ts v) (transform_loop h us)"
proof (induction ts arbitrary: v)
  case Nil
  show ?case by (simp add: bind_e_simps)
next
  case (Cons t ts)
  show ?case
    by (cases "apply_transform h t v") (simp_all add: bind_e_simps Cons.IH)
qed

lemma applyTransformations_loop:
  "applyTransformations h v (Some ts) = transform_loop h ts v"
  by (cases ts) (simp_all add: applyTransformations_def)

lemma typeof_string: "typeof v = ''string'' \<longleftrightarrow> (\<exists>str. v = JStr str)"
  by (cases v) simp_all

lemma apply_transform_non_string:
  "typeof v \<noteq> ''string'' \<Longrightarrow> apply_transform h t v = Inr v"
  by (cases v; cases "ttype t")
     (simp_all add: apply_transform_def split: option.splits)

lemma transform_loop_non_string:
  "typeof v \<noteq> ''string'' \<Longrightarrow> transform_loop h ts v = Inr v"
  by (induction ts) (simp_all add: apply_transform_non_string bind_e_simps)

lemma apply_transform_replace_noop:
  assumes "ttype t = Replace"
    and "replacement t = None \<or> replacement t = Some [] \<or> pattern t = None \<or> pattern t = Some []"
  shows "apply_transform h t v = Inr v"
  using assms by (auto simp: apply_transform_def split: option.splits jsval.splits)

lemma strip_non_numeric_filter:
  "strip_non_numeric str = filter (\<lambda>c. c \<in> set ''0123456789.-'') str"
  unfolding strip_non_numeric_def is_digit_def
  by (rule filter_cong) auto

lemma apply_transform_parseNumber:
  "ttype t = ParseNumber \<Longrightarrow>
   apply_transform h t (JStr str) =
     Inr (if parseFloat h (filter (\<lambda>c. c \<in> set ''0123456789.-'') str) = JNaN then JStr str
          else parseFloat h (filter (\<lambda>c. c \<in> set ''0123456789.-'') str))"
  unfolding strip_non_numeric_filter [symmetric]
  by (simp add: apply_transform_def Let_def)

section \<open>Properties of the processor\<close>

lemma process_methods_step:
  "process_methods h d s ((m, m, source_confidence m) # rest) =
    (case source_hit h d s m of
       None \<Rightarrow> process_methods h d s rest
     | Some r \<Rightarrow> field_of_hit h s m r)"
  by (simp add: source_hit_def field_of_hit_def extractFromSource_def
      split: option.splits)

lemma process_methods_find:
  "process_methods h d s (map (\<lambda>m. (m, m, source_confidence m)) ms) =
    (case find (\<lambda>m. source_hit h d s m \<noteq> None) ms of
       None \<Rightarrow> Inr None
     | Some m \<Rightarrow> field_of_hit h s m (the (source_hit h d s m)))"
proof (induction ms)
  case Nil
  show ?case by simp
next
  case (Cons m ms)
  show ?case
    unfolding list.map process_methods_step
    by (cases "source_hit h d s m") (simp_all add: Cons.IH)
qed

lemma methods_source_order:
  "methods = map (\<lambda>m. (m, m, source_confidence m)) source_order"
  by (simp add: methods_def source_order_def)

lemma processSelector_find:
  "processSelector h d s =
    (case find (\<lambda>m. source_hit h d s m \<noteq> None) source_order of
       None \<Rightarrow> Inr None
     | Some m \<Rightarrow> field_of_hit h s m (the (source_hit h d s m)))"
  unfolding processSelector_def methods_source_order by (rule process_methods_find)

lemma field_of_hit_result:
  "field_of_hit h s m r = Inr x \<Longrightarrow>
   \<exists>v. x = Some \<lparr>value = v, source = m, path = the (selector_key s m),
                   confidence = source_confidence m\<rparr>"
  by (auto simp: field_of_hit_def bind_e_def split: sum.splits)

lemma source_order_complete: "m \<in> set source_order"
  by (cases m) (simp_all add: source_order_def)

lemma source_order_distinct: "distinct source_order"
  by (simp add: source_order_def)


lemma processSelector_None_iff:
  "processSelector h d s = Inr None \<longleftrightarrow> (\<forall>m. source_hit h d s m = None)"
proof
  assume r: "processSelector h d s = Inr None"
  show "\<forall>m. source_hit h d s m = None"
  proof (cases "find (\<lambda>m. source_hit h d s m \<noteq> None) source_order")
    case None
    then show ?thesis
      unfolding find_None_iff using source_order_complete by blast
  next
    case (Some m)
    with r have "field_of_hit h s m (the (source_hit h d s m)) = Inr None"
      by (simp only: processSelector_find option.case)
    from field_of_hit_result [OF this] show ?thesis by simp
  qed
next
  assume "\<forall>m. source_hit h d s m = None"
  then have "find (\<lambda>m. source_hit h d s m \<noteq> None) source_order = None"
    by (simp add: find_None_iff)
  then show "processSelector h d s = Inr None"
    by (simp only: processSelector_find option.case)
qed

subsection \<open>Misses\<close>

lemma process_methods_miss:
  assumes "selector_key s k = None \<or> selector_key s k = Some [] \<or> \<not> truthy (data_source d src) \<or>
    (\<exists>p. selector_key s k = Some p \<and>
      (evaluateStructuredDataPath h (data_source d src) p = None \<or>
       evaluateStructuredDataPath h (data_source d src) p = Some ''Not found''))"
  shows "process_methods h d s ((k, src, conf) # rest) = process_methods h d s rest"
  using assms by (auto simp: extractFromSource_def split: option.splits)

lemma source_hit_None_iff:
  "source_hit h d s m = None \<longleftrightarrow>
    (\<forall>p. selector_key s m = Some p \<and> p \<noteq> [] \<and> truthy (data_source d m) \<longrightarrow>
       evaluateStructuredDataPath h (data_source d m) p = None \<or>
       evaluateStructuredDataPath h (data_source d m) p = Some ''Not found'')"
  by (auto simp: source_hit_def split: option.splits)

subsection \<open>The regular expression of the selector\<close>





subsection \<open>The loop of the recipe\<close>

lemma recipe_loop_result:
  assumes "distinct (map fst sels)" "''__proto__'' \<notin> fst ` set sels"
    and "\<forall>(k, sel) \<in> set sels. \<exists>x. processSelector h d sel = Inr x"
  shows "\<exists>res. recipe_loop h d sels acc = Inr res \<and>
    (\<forall>k. res k =
      (case map_of sels k of
         None \<Rightarrow> acc k
       | Some sel \<Rightarrow>
           (case processSelector h d sel of
              Inr (Some f) \<Rightarrow> Some f
            | _ \<Rightarrow> acc k)))"
  using assms
proof (induction sels arbitrary: acc)
  case Nil
  show ?case by simp
next
  case (Cons a sels)
  obtain k sel where a: "a = (k, sel)" by (cases a)
  from Cons.prems(3) a obtain x where x: "processSelector h d sel = Inr x" by auto
  from Cons.prems a have d: "distinct (map fst sels)" and p: "''__proto__'' \<notin> fst ` set sels"
    and e: "\<forall>(k, sel) \<in> set sels. \<exists>x. processSelector h d sel = Inr x"
    and knew: "map_of sels k = None" and kp: "k \<noteq> ''__proto__''"
    by (auto simp: map_of_eq_None_iff)
  show ?case
  proof (cases x)
    case None
    from Cons.IH [OF d p e, of acc] obtain res where
      res: "recipe_loop h d sels acc = Inr res"
      "\<forall>k. res k = (case map_of sels k of None \<Rightarrow> acc k
         | Some sel \<Rightarrow> (case processSelector h d sel of Inr (Some f) \<Rightarrow> Some f | _ \<Rightarrow> acc k))"
      by blast
    have "recipe_loop h d (a # sels) acc = Inr res"
      by (simp add: a x None bind_e_simps res(1))
    moreover have "res k' = (case map_of (a # sels) k' of None \<Rightarrow> acc k'
         | Some sel \<Rightarrow> (case processSelector h d sel of Inr (Some f) \<Rightarrow> Some f | _ \<Rightarrow> acc k'))" for k'
      using res(2) knew by (simp add: a x None)
    ultimately show ?thesis by blast
  next
    case (Some f)
    from Cons.IH [OF d p e, of "assign_field acc k f"] obtain res where
      res: "recipe_loop h d sels (assign_field acc k f) = Inr res"
      "\<forall>k'. res k' = (case map_of sels k' of None \<Rightarrow> assign_field acc k f k'
         | Some sel \<Rightarrow> (case processSelector h d sel of Inr (Some f') \<Rightarrow> Some f'
                         | _ \<Rightarrow> assign_field acc k f k'))"
      by blast
    have "recipe_loop h d (a # sels) acc = Inr res"
      by (simp add: a x Some bind_e_simps res(1))
    moreover have "res k' = (case map_of (a # sels) k' of None \<Rightarrow> acc k'
         | Some sel \<Rightarrow> (case processSelector h d sel of Inr (Some f) \<Rightarrow> Some f | _ \<Rightarrow> acc k'))" for k'
    proof (cases "k' = k")
      case True
      then show ?thesis
        using res(2) knew kp by (simp add: a x Some assign_field_def)
    next
      case False
      then have "assign_field acc k f k' = acc k'"
        by (simp add: assign_field_def)
      with False show ?thesis
        using res(2) by (simp add: a split: option.splits sum.splits)
    qed
    ultimately show ?thesis by blast
  qed
qed

lemma processRecipe_result:
  assumes "distinct (map fst sels)" "''__proto__'' \<notin> fst ` set sels"
    and "\<forall>(k, sel) \<in> set sels. \<exists>x. processSelector h d sel = Inr x"
  shows "\<exists>res. processRecipe h d sels = Inr res \<and>
    (\<forall>k f. res k = Some f \<longleftrightarrow>
       (\<exists>sel. (k, sel) \<in> set sels \<and> processSelector h d sel = Inr (Some f)))"
proof -
  from recipe_loop_result [OF assms, of Map.empty] obtain res where
    res: "processRecipe h d sels = Inr res"
    "\<forall>k. res k = (case map_of sels k of None \<Rightarrow> None
       | Some sel \<Rightarrow> (case processSelector h d sel of Inr (Some f) \<Rightarrow> Some f | _ \<Rightarrow> None))"
    unfolding processRecipe_def by auto
  have "res k = Some f \<longleftrightarrow>
       (\<exists>sel. (k, sel) \<in> set sels \<and> processSelector h d sel = Inr (Some f))" for k f
  proof
    assume "res k = Some f"
    then obtain sel where "map_of sels k = Some sel" "processSelector h d sel = Inr (Some f)"
      using res(2) by (auto split: option.splits sum.splits)
    then show "\<exists>sel. (k, sel) \<in> set sels \<and> processSelector h d sel = Inr (Some f)"
      using map_of_SomeD by fast
  next
    assume "\<exists>sel. (k, sel) \<in> set sels \<and> processSelector h d sel = Inr (Some f)"
    then obtain sel where "(k, sel) \<in> set sels" "processSelector h d sel = Inr (Some f)"
      by blast
    then show "res k = Some f"
      using res(2) assms(1) by (simp add: map_of_is_SomeI)
  qed
  with res(1) show ?thesis by blast
qed

lemma recipe_loop_raises:
  "(k, sel) \<in> set sels \<Longrightarrow> processSelector h d sel = Inl e \<Longrightarrow>
   \<exists>e'. recipe_loop h d sels acc = Inl e'"
proof (induction sels arbitrary: acc)
  case Nil
  then show ?case by simp
next
  case (Cons a sels)
  obtain k' sel' where a: "a = (k', sel')" by (cases a)
  show ?case
  proof (cases "processSelector h d sel'")
    case (Inl e'')
    then show ?thesis by (simp add: a bind_e_simps)
  next
    case (Inr x)
    with Cons.prems a have "(k, sel) \<in> set sels" by auto
    from Cons.IH [OF this Cons.prems(2)] show ?thesis
      by (cases x) (simp_all add: a Inr bind_e_simps)
  qed
qed

subsection \<open>The selectors of the examples\<close>

lemma example_selectors:
  "processSelector example_host example_payload priority_selector =
     Inr (Some \<lparr>value = JStr ''Laptop'', source = JsonLdS, path = ''0.name'',
                 confidence = 9 / 10\<rparr>)"
  "processSelector example_host example_payload missing_selector = Inr None"
  "processSelector example_host example_payload price_selector =
     Inr (Some \<lparr>value = JNum 1399, source = JsonLdS, path = ''0.offers.price'',
                 confidence = 9 / 10\<rparr>)"
  "processSelector example_host example_payload unclosed_selector = Inl SyntaxError"
  by (simp_all add: processSelector_def methods_def priority_selector_def missing_selector_def
      price_selector_def unclosed_selector_def empty_selector_def example_payload_def
      extractFromSource_def eval_defs applyTransformations_def apply_selector_regex_def
      bind_e_def transformation_def apply_transform_def strip_non_numeric_def
      example_host_def example_numbers_def)

subsection \<open>Validation\<close>

lemma getProp_object:
  "typeof data = ''object'' \<Longrightarrow> data \<noteq> JNull \<Longrightarrow> \<exists>v. getProp h data k = Inr v"
  by (cases data) (simp_all add: getProp_def)

lemma validateStructuredData_total: "\<exists>b. validateStructuredData h data = Inr b"
proof (cases "typeof data = ''object'' \<and> data \<noteq> JNull")
  case False
  then show ?thesis by (auto simp: validateStructuredData_def)
next
  case True
  then have "\<exists>v. getProp h data k = Inr v" for k
    using getProp_object by blast
  then obtain g where g: "getProp h data k = Inr (g k)" for k
    by metis
  show ?thesis
    using True by (auto simp: validateStructuredData_def g bind_e_simps)
qed

lemma validateStructuredData_iff:
  "validateStructuredData h data = Inr True \<longleftrightarrow>
    typeof data = ''object'' \<and> data \<noteq> JNull \<and>
    (\<exists>v1 v2 v3 v4 v5 v6 v7.
       getProp h data ''jsonLd'' = Inr v1 \<and> isArray v1 \<and>
       getProp h data ''metaTags'' = Inr v2 \<and> typeof v2 = ''object'' \<and>
       getProp h data ''dataLayers'' = Inr v3 \<and> typeof v3 = ''object'' \<and>
       getProp h data ''url'' = Inr v4 \<and> typeof v4 = ''string'' \<and>
       getProp h data ''pageTitle'' = Inr v5 \<and> typeof v5 = ''string'' \<and>
       getProp h data ''timestamp'' = Inr v6 \<and> typeof v6 = ''string'' \<and>
       getProp h data ''extractorVersion'' = Inr v7 \<and> typeof v7 = ''string'')"
proof (cases "typeof data = ''object'' \<and> data \<noteq> JNull")
  case False
  then show ?thesis by (auto simp: validateStructuredData_def)
next
  case True
  then have "\<exists>v. getProp h data k = Inr v" for k
    using getProp_object by blast
  then obtain g where g: "getProp h data k = Inr (g k)" for k
    by metis
  show ?thesis
    using True by (auto simp: validateStructuredData_def g bind_e_simps)
qed

subsection \<open>The five sources in turn\<close>

lemma processSelector_cases:
  "processSelector h d s =
    (case path_hit h (jsonLd_path s) (jsonLd d) of
       Some pr \<Rightarrow> hit_field h s JsonLdS (9 / 10) pr
     | None \<Rightarrow>
    (case path_hit h (metaTags_path s) (metaTags d) of
       Some pr \<Rightarrow> hit_field h s MetaTagsS (8 / 10) pr
     | None \<Rightarrow>
    (case path_hit h (dataLayers_path s) (dataLayers d) of
       Some pr \<Rightarrow> hit_field h s DataLayersS (7 / 10) pr
     | None \<Rightarrow>
    (case path_hit h (microdata_path s) (microdata d) of
       Some pr \<Rightarrow> hit_field h s MicrodataS (6 / 10) pr
     | None \<Rightarrow>
    (case path_hit h (customDataLayers_path s) (customDataLayers d) of
       Some pr \<Rightarrow> hit_field h s CustomDataLayersS (5 / 10) pr
     | None \<Rightarrow> Inr None)))))"
proof -
  have step: "process_methods h d s ((k, src, c) # rest) =
      (case path_hit h (selector_key s k) (data_source d src) of
         Some pr \<Rightarrow> hit_field h s src c pr
       | None \<Rightarrow> process_methods h d s rest)" for k src c rest
    by (simp add: path_hit_def hit_field_def extractFromSource_def split: option.splits)
  show ?thesis
    unfolding processSelector_def methods_def step by (simp cong: option.case_cong)
qed

lemma hit_field_result:
  "hit_field h s m c (p, r) = Inr x \<Longrightarrow>
   \<exists>v. x = Some \<lparr>value = v, source = m, path = p, confidence = c\<rparr>"
  by (auto simp: hit_field_def bind_e_def split: sum.splits)

lemma hit_field_outcome:
  "hit_field h s m c (p, r) =
    (case applyTransformations h (JStr r) (transformations s) of
       Inl e \<Rightarrow> Inl e
     | Inr pv \<Rightarrow>
         (case apply_selector_regex h (regex s) pv of
            Inl e \<Rightarrow> Inl e
          | Inr v \<Rightarrow> Inr (Some \<lparr>value = v, source = m, path = p, confidence = c\<rparr>)))"
  by (simp add: hit_field_def bind_e_def split: sum.splits)

lemma processSelector_confidence:
  assumes "processSelector h d s = Inr (Some f)"
  shows "(source f, confidence f) \<in>
    {(JsonLdS, 9 / 10), (MetaTagsS, 8 / 10), (DataLayersS, 7 / 10), (MicrodataS, 6 / 10),
     (CustomDataLayersS, 5 / 10)}"
proof -
  have field: "source f = m \<and> confidence f = c" if "hit_field h s m c pr = Inr (Some f)"
    for m c pr
  proof -
    obtain p r where pr: "pr = (p, r)" by (cases pr)
    from hit_field_result [OF that [unfolded pr]] show ?thesis by auto
  qed
  from assms show ?thesis
    unfolding processSelector_cases
    by (auto split: option.splits dest: field)
qed

section \<open>The claims about the processor\<close>

text \<open>
  Claim C1, as amended. \<open>processSelector\<close> tries the five sources in the order \<open>jsonLd\<close>,
  \<open>metaTags\<close>, \<open>dataLayers\<close>, \<open>microdata\<close>, \<open>customDataLayers\<close>. A source is a hit when
  its path in the selector is a non-empty string, its table in the payload is truthy and
  the evaluation of the path there is neither \<open>null\<close> nor the string \<open>Not found\<close>. The
  first hit decides the call and no later source is tried: the string found goes through
  the transformations and the regular expression of the selector, and the field returned
  names that source and that path, with the confidence of the source alone: 0.9, 0.8,
  0.7, 0.6 and 0.5 in that order. When one of the two steps raises, the call raises. So,
  when the \<open>jsonLd\<close> path is a hit, the result is the \<open>jsonLd\<close> field with confidence 0.9
  whatever the other sources hold, provided that neither step raises.
\<close>

theorem processSelector_source_priority:
  "processSelector h d s =
    (case path_hit h (jsonLd_path s) (jsonLd d) of
       Some pr \<Rightarrow> hit_field h s JsonLdS (9 / 10) pr
     | None \<Rightarrow>
    (case path_hit h (metaTags_path s) (metaTags d) of
       Some pr \<Rightarrow> hit_field h s MetaTagsS (8 / 10) pr
     | None \<Rightarrow>
    (case path_hit h (dataLayers_path s) (dataLayers d) of
       Some pr \<Rightarrow> hit_field h s DataLayersS (7 / 10) pr
     | None \<Rightarrow>
    (case path_hit h (microdata_path s) (microdata d) of
       Some pr \<Rightarrow> hit_field h s MicrodataS (6 / 10) pr
     | None \<Rightarrow>
    (case path_hit h (customDataLayers_path s) (customDataLayers d) of
       Some pr \<Rightarrow> hit_field h s CustomDataLayersS (5 / 10) pr
     | None \<Rightarrow> Inr None)))))
   \<and> hit_field h s m c (p, r) =
       (case applyTransformations h (JStr r) (transformations s) of
          Inl e \<Rightarrow> Inl e
        | Inr pv \<Rightarrow>
            (case apply_selector_regex h (regex s) pv of
               Inl e \<Rightarrow> Inl e
             | Inr v \<Rightarrow> Inr (Some \<lparr>value = v, source = m, path = p, confidence = c\<rparr>)))
   \<and> (processSelector h d s = Inr (Some f) \<longrightarrow>
        confidence f =
          (case source f of
             JsonLdS \<Rightarrow> 9 / 10
           | MetaTagsS \<Rightarrow> 8 / 10
           | DataLayersS \<Rightarrow> 7 / 10
           | MicrodataS \<Rightarrow> 6 / 10
           | CustomDataLayersS \<Rightarrow> 5 / 10))
   \<and> (path_hit h (jsonLd_path s) (jsonLd d) = Some (p, r) \<longrightarrow>
        processSelector h d s = hit_field h s JsonLdS (9 / 10) (p, r))
   \<and> (path_hit h (jsonLd_path s) (jsonLd d) = Some (p, r) \<and>
       applyTransformations h (JStr r) (transformations s) = Inr pv \<and>
       apply_selector_regex h (regex s) pv = Inr v \<longrightarrow>
        processSelector h d s =
          Inr (Some \<lparr>value = v, source = JsonLdS, path = p, confidence = 9 / 10\<rparr>))"
proof (intro conjI impI)
  show "processSelector h d s =
    (case path_hit h (jsonLd_path s) (jsonLd d) of
       Some pr \<Rightarrow> hit_field h s JsonLdS (9 / 10) pr
     | None \<Rightarrow>
    (case path_hit h (metaTags_path s) (metaTags d) of
       Some pr \<Rightarrow> hit_field h s MetaTagsS (8 / 10) pr
     | None \<Rightarrow>
    (case path_hit h (dataLayers_path s) (dataLayers d) of
       Some pr \<Rightarrow> hit_field h s DataLayersS (7 / 10) pr
     | None \<Rightarrow>
    (case path_hit h (microdata_path s) (microdata d) of
       Some pr \<Rightarrow> hit_field h s MicrodataS (6 / 10) pr
     | None \<Rightarrow>
    (case path_hit h (customDataLayers_path s) (customDataLayers d) of
       Some pr \<Rightarrow> hit_field h s CustomDataLayersS (5 / 10) pr
     | None \<Rightarrow> Inr None)))))"
    by (rule processSelector_cases)
next
  show "hit_field h s m c (p, r) =
       (case applyTransformations h (JStr r) (transformations s) of
          Inl e \<Rightarrow> Inl e
        | Inr pv \<Rightarrow>
            (case apply_selector_regex h (regex s) pv of
               Inl e \<Rightarrow> Inl e
             | Inr v \<Rightarrow> Inr (Some \<lparr>value = v, source = m, path = p, confidence = c\<rparr>)))"
    by (rule hit_field_outcome)
next
  assume "processSelector h d s = Inr (Some f)"
  from processSelector_confidence [OF this]
  show "confidence f =
          (case source f of
             JsonLdS \<Rightarrow> 9 / 10
           | MetaTagsS \<Rightarrow> 8 / 10
           | DataLayersS \<Rightarrow> 7 / 10
           | MicrodataS \<Rightarrow> 6 / 10
           | CustomDataLayersS \<Rightarrow> 5 / 10)"
    by auto
next
  assume "path_hit h (jsonLd_path s) (jsonLd d) = Some (p, r)"
  then show "processSelector h d s = hit_field h s JsonLdS (9 / 10) (p, r)"
    by (simp add: processSelector_cases)
next
  assume "path_hit h (jsonLd_path s) (jsonLd d) = Some (p, r) \<and>
       applyTransformations h (JStr r) (transformations s) = Inr pv \<and>
       apply_selector_regex h (regex s) pv = Inr v"
  then show "processSelector h d s =
          Inr (Some \<lparr>value = v, source = JsonLdS, path = p, confidence = 9 / 10\<rparr>)"
    by (simp add: processSelector_cases hit_field_outcome)
qed

theorem processSelector_source_priority_witness:
  "path_hit example_host (jsonLd_path priority_selector) (jsonLd full_payload) =
     Some (''0.name'', ''Laptop'')
   \<and> path_hit example_host (metaTags_path priority_selector) (metaTags full_payload) =
     Some (''og:title'', ''Laptop - Shop'')
   \<and> path_hit example_host (dataLayers_path priority_selector) (dataLayers full_payload) =
     Some (''dataLayer[0].product.name'', ''Laptop DL'')
   \<and> processSelector example_host full_payload priority_selector =
       Inr (Some \<lparr>value = JStr ''Laptop'', source = JsonLdS, path = ''0.name'',
                   confidence = 9 / 10\<rparr>)
   \<and> processSelector example_host full_payload
       (missing_selector\<lparr>metaTags_path := Some ''og:title''\<rparr>) =
       Inr (Some \<lparr>value = JStr ''Laptop - Shop'', source = MetaTagsS, path = ''og:title'',
                   confidence = 8 / 10\<rparr>)
   \<and> processSelector example_host full_payload
       (missing_selector\<lparr>dataLayers_path := Some ''dataLayer[0].product.name''\<rparr>) =
       Inr (Some \<lparr>value = JStr ''Laptop DL'', source = DataLayersS,
                   path = ''dataLayer[0].product.name'', confidence = 7 / 10\<rparr>)
   \<and> processSelector example_host full_payload missing_selector =
       Inr (Some \<lparr>value = JStr ''Laptop MD'', source = MicrodataS, path = ''0.name'',
                   confidence = 6 / 10\<rparr>)
   \<and> processSelector example_host full_payload
       (missing_selector\<lparr>microdata_path := Some ''0.brand'',
                           customDataLayers_path := Some ''shop.name''\<rparr>) =
       Inr (Some \<lparr>value = JStr ''Laptop CDL'', source = CustomDataLayersS, path = ''shop.name'',
                   confidence = 5 / 10\<rparr>)"
proof -
  note ev = path_hit_def full_payload_def example_payload_def priority_selector_def
    missing_selector_def empty_selector_def eval_defs example_host_def
  note fld = hit_field_def applyTransformations_def apply_selector_regex_def bind_e_def
  define f0 where "f0 = \<lparr>value = JNull, source = JsonLdS, path = [], confidence = 0\<rparr>"
  have first: "processSelector example_host full_payload sel =
    (case path_hit example_host (jsonLd_path sel) (jsonLd full_payload) of
       Some pr \<Rightarrow> hit_field example_host sel JsonLdS (9 / 10) pr
     | None \<Rightarrow>
    (case path_hit example_host (metaTags_path sel) (metaTags full_payload) of
       Some pr \<Rightarrow> hit_field example_host sel MetaTagsS (8 / 10) pr
     | None \<Rightarrow>
    (case path_hit example_host (dataLayers_path sel) (dataLayers full_payload) of
       Some pr \<Rightarrow> hit_field example_host sel DataLayersS (7 / 10) pr
     | None \<Rightarrow>
    (case path_hit example_host (microdata_path sel) (microdata full_payload) of
       Some pr \<Rightarrow> hit_field example_host sel MicrodataS (6 / 10) pr
     | None \<Rightarrow>
    (case path_hit example_host (customDataLayers_path sel) (customDataLayers full_payload) of
       Some pr \<Rightarrow> hit_field example_host sel CustomDataLayersS (5 / 10) pr
     | None \<Rightarrow> Inr None)))))" for sel
    using processSelector_source_priority
      [of example_host full_payload sel JsonLdS 0 "[]" "[]" f0 JNull JNull]
    by (elim conjE)
  have h1: "path_hit example_host (jsonLd_path priority_selector) (jsonLd full_payload) =
     Some (''0.name'', ''Laptop'')"
    and h2: "path_hit example_host (metaTags_path priority_selector) (metaTags full_payload) =
     Some (''og:title'', ''Laptop - Shop'')"
    and h3: "path_hit example_host (dataLayers_path priority_selector) (dataLayers full_payload) =
     Some (''dataLayer[0].product.name'', ''Laptop DL'')"
    by (simp_all add: ev)
  have r1: "processSelector example_host full_payload priority_selector =
       Inr (Some \<lparr>value = JStr ''Laptop'', source = JsonLdS, path = ''0.name'',
                   confidence = 9 / 10\<rparr>)"
    unfolding first h1 by (simp add: fld priority_selector_def empty_selector_def)
  have r2: "processSelector example_host full_payload
       (missing_selector\<lparr>metaTags_path := Some ''og:title''\<rparr>) =
       Inr (Some \<lparr>value = JStr ''Laptop - Shop'', source = MetaTagsS, path = ''og:title'',
                   confidence = 8 / 10\<rparr>)"
    unfolding first by (simp add: ev fld)
  have r3: "processSelector example_host full_payload
       (missing_selector\<lparr>dataLayers_path := Some ''dataLayer[0].product.name''\<rparr>) =
       Inr (Some \<lparr>value = JStr ''Laptop DL'', source = DataLayersS,
                   path = ''dataLayer[0].product.name'', confidence = 7 / 10\<rparr>)"
    unfolding first by (simp add: ev fld)
  have r4: "processSelector example_host full_payload missing_selector =
       Inr (Some \<lparr>value = JStr ''Laptop MD'', source = MicrodataS, path = ''0.name'',
                   confidence = 6 / 10\<rparr>)"
    unfolding first by (simp add: ev fld)
  have r5: "processSelector example_host full_payload
       (missing_selector\<lparr>microdata_path := Some ''0.brand'',
                           customDataLayers_path := Some ''shop.name''\<rparr>) =
       Inr (Some \<lparr>value = JStr ''Laptop CDL'', source = CustomDataLayersS, path = ''shop.name'',
                   confidence = 5 / 10\<rparr>)"
    unfolding first by (simp add: ev fld)
  from h1 h2 h3 r1 r2 r3 r4 r5 show ?thesis by (intro conjI)
qed

text \<open>
  Claim C1, as stated, promises the \<open>jsonLd\<close> result with confidence 0.9 whenever the paths
  of \<open>jsonLd\<close>, \<open>metaTags\<close> and \<open>dataLayers\<close> are set and resolvable. With the regular
  expression \<open>(\<close> in the selector, which does not compile, all three paths resolve and the
  call raises \<open>SyntaxError\<close>: no field is returned.
\<close>

theorem processSelector_unclosed_regex_counterexample:
  "path_hit example_host (jsonLd_path (priority_selector\<lparr>regex := Some ''(''\<rparr>))
     (jsonLd example_payload) = Some (''0.name'', ''Laptop'')
   \<and> path_hit example_host (metaTags_path (priority_selector\<lparr>regex := Some ''(''\<rparr>))
     (metaTags example_payload) = Some (''og:title'', ''Laptop - Shop'')
   \<and> path_hit example_host (dataLayers_path (priority_selector\<lparr>regex := Some ''(''\<rparr>))
     (dataLayers example_payload) = Some (''dataLayer[0].product.name'', ''Laptop DL'')
   \<and> processSelector example_host example_payload (priority_selector\<lparr>regex := Some ''(''\<rparr>) =
       Inl SyntaxError"
  by (simp add: processSelector_cases path_hit_def hit_field_def example_payload_def
      priority_selector_def empty_selector_def eval_defs example_host_def
      applyTransformations_def apply_selector_regex_def bind_e_def)

text \<open>
  Claim C5. A source whose evaluation is \<open>null\<close> or the string \<open>Not found\<close> is a
  miss: the loop goes on with the next source. \<open>processSelector\<close> returns \<open>null\<close>,
  without an exception, exactly when every source that is set in the selector and
  present in the payload is such a miss.
\<close>

theorem processSelector_miss:
  "((\<exists>p. selector_key s k = Some p \<and>
        (evaluateStructuredDataPath h (data_source d src) p = None \<or>
         evaluateStructuredDataPath h (data_source d src) p = Some ''Not found'')) \<longrightarrow>
      process_methods h d s ((k, src, conf) # rest) = process_methods h d s rest)
   \<and> (processSelector h d s = Inr None \<longleftrightarrow>
        (\<forall>m p. selector_key s m = Some p \<and> p \<noteq> [] \<and> truthy (data_source d m) \<longrightarrow>
           evaluateStructuredDataPath h (data_source d m) p = None \<or>
           evaluateStructuredDataPath h (data_source d m) p = Some ''Not found''))"
proof (intro conjI impI)
  assume "\<exists>p. selector_key s k = Some p \<and>
        (evaluateStructuredDataPath h (data_source d src) p = None \<or>
         evaluateStructuredDataPath h (data_source d src) p = Some ''Not found'')"
  then show "process_methods h d s ((k, src, conf) # rest) = process_methods h d s rest"
    using process_methods_miss by blast
next
  show "processSelector h d s = Inr None \<longleftrightarrow>
        (\<forall>m p. selector_key s m = Some p \<and> p \<noteq> [] \<and> truthy (data_source d m) \<longrightarrow>
           evaluateStructuredDataPath h (data_source d m) p = None \<or>
           evaluateStructuredDataPath h (data_source d m) p = Some ''Not found'')"
    unfolding processSelector_None_iff source_hit_None_iff by blast
qed

theorem processSelector_miss_witness:
  "evaluateStructuredDataPath example_host (jsonLd example_payload) ''0.sku'' = None
   \<and> evaluateStructuredDataPath example_host (metaTags example_payload) ''og:availability'' =
       Some ''Not found''
   \<and> evaluateStructuredDataPath example_host (dataLayers example_payload)
       ''dataLayer[0].product.brand'' = None
   \<and> process_methods example_host example_payload missing_selector
       [(MetaTagsS, MetaTagsS, 8 / 10), (DataLayersS, DataLayersS, 7 / 10)] =
     process_methods example_host example_payload missing_selector
       [(DataLayersS, DataLayersS, 7 / 10)]
   \<and> processSelector example_host example_payload missing_selector = Inr None"
proof -
  have a: "evaluateStructuredDataPath example_host (jsonLd example_payload) ''0.sku'' = None"
    by (simp add: example_payload_def eval_defs)
  have b: "evaluateStructuredDataPath example_host (metaTags example_payload) ''og:availability'' =
       Some ''Not found''"
    by (simp add: example_payload_def eval_defs)
  have c: "evaluateStructuredDataPath example_host (dataLayers example_payload)
       ''dataLayer[0].product.brand'' = None"
    by (simp add: example_payload_def eval_defs example_host_def)
  have falsy: "\<not> truthy (microdata example_payload)" "\<not> truthy (customDataLayers example_payload)"
    by (simp_all add: example_payload_def)
  have keys: "selector_key missing_selector JsonLdS = Some ''0.sku''"
    "selector_key missing_selector MetaTagsS = Some ''og:availability''"
    "selector_key missing_selector DataLayersS = Some ''dataLayer[0].product.brand''"
    by (simp_all add: missing_selector_def empty_selector_def)
  note t = processSelector_miss
    [of missing_selector MetaTagsS example_host example_payload MetaTagsS "8 / 10"
        "[(DataLayersS, DataLayersS, 7 / 10)]"]
  have "\<exists>p. selector_key missing_selector MetaTagsS = Some p \<and>
      (evaluateStructuredDataPath example_host (data_source example_payload MetaTagsS) p = None \<or>
       evaluateStructuredDataPath example_host (data_source example_payload MetaTagsS) p =
         Some ''Not found'')"
    using keys(2) b by simp
  with t have step: "process_methods example_host example_payload missing_selector
       [(MetaTagsS, MetaTagsS, 8 / 10), (DataLayersS, DataLayersS, 7 / 10)] =
     process_methods example_host example_payload missing_selector
       [(DataLayersS, DataLayersS, 7 / 10)]"
    by blast
  have all: "\<forall>m p. selector_key missing_selector m = Some p \<and> p \<noteq> [] \<and>
      truthy (data_source example_payload m) \<longrightarrow>
      evaluateStructuredDataPath example_host (data_source example_payload m) p = None \<or>
      evaluateStructuredDataPath example_host (data_source example_payload m) p = Some ''Not found''"
  proof (intro allI impI)
    fix m p
    assume "selector_key missing_selector m = Some p \<and> p \<noteq> [] \<and>
      truthy (data_source example_payload m)"
    then show "evaluateStructuredDataPath example_host (data_source example_payload m) p = None \<or>
      evaluateStructuredDataPath example_host (data_source example_payload m) p = Some ''Not found''"
      using a b c falsy keys by (cases m) auto
  qed
  have "processSelector example_host example_payload missing_selector = Inr None"
    using t all by blast
  with a b c step show ?thesis by (intro conjI)
qed




section \<open>The claims about the transformations\<close>

text \<open>
  Claim C4. The transformations are applied in the order of the list, each to the
  result of the one before it. \<open>parseNumber\<close> removes from a string every character
  that is not a digit, a dot or a minus sign and passes what is left to \<open>parseFloat\<close>;
  the value becomes the number returned, and when that is \<open>NaN\<close> the string stays as
  it is. So the selector with the \<open>jsonLd\<close> path \<open>0.offers.price\<close> and the one
  transformation \<open>parseNumber\<close>, on a payload whose price evaluates to the string
  \<open>1399.00\<close>, which \<open>parseFloat\<close> reads as 1399, gives the number 1399.
\<close>

theorem transformations_in_order:
  "applyTransformations h v (Some (ts @ us)) =
     bind_e (applyTransformations h v (Some ts)) (\<lambda>w. applyTransformations h w (Some us))
   \<and> applyTransformations h v (Some (t # ts)) =
       bind_e (apply_transform h t v) (\<lambda>w. applyTransformations h w (Some ts))
   \<and> applyTransformations h v (Some []) = Inr v
   \<and> applyTransformations h v None = Inr v
   \<and> (ttype t = ParseNumber \<longrightarrow>
        apply_transform h t (JStr str) =
          Inr (if parseFloat h (filter (\<lambda>c. c \<in> set ''0123456789.-'') str) = JNaN then JStr str
               else parseFloat h (filter (\<lambda>c. c \<in> set ''0123456789.-'') str)))
   \<and> (jsonLd_path s = Some ''0.offers.price'' \<and> transformations s = Some [t] \<and>
       ttype t = ParseNumber \<and> regex s = None \<and> truthy (jsonLd d) \<and>
       evaluateStructuredDataPath h (jsonLd d) ''0.offers.price'' = Some ''1399.00'' \<and>
       parseFloat h ''1399.00'' = JNum 1399 \<longrightarrow>
        processSelector h d s =
          Inr (Some \<lparr>value = JNum 1399, source = JsonLdS, path = ''0.offers.price'',
                      confidence = 9 / 10\<rparr>)
        \<and> typeof (JNum 1399) = ''number'')"
proof (intro conjI impI)
  show "applyTransformations h v (Some (ts @ us)) =
     bind_e (applyTransformations h v (Some ts)) (\<lambda>w. applyTransformations h w (Some us))"
    by (simp only: applyTransformations_loop transform_loop_append)
next
  show "applyTransformations h v (Some (t # ts)) =
       bind_e (apply_transform h t v) (\<lambda>w. applyTransformations h w (Some ts))"
    by (simp only: applyTransformations_loop transform_loop.simps)
next
  assume "ttype t = ParseNumber"
  then show "apply_transform h t (JStr str) =
          Inr (if parseFloat h (filter (\<lambda>c. c \<in> set ''0123456789.-'') str) = JNaN then JStr str
               else parseFloat h (filter (\<lambda>c. c \<in> set ''0123456789.-'') str))"
    by (rule apply_transform_parseNumber)
next
  assume a: "jsonLd_path s = Some ''0.offers.price'' \<and> transformations s = Some [t] \<and>
       ttype t = ParseNumber \<and> regex s = None \<and> truthy (jsonLd d) \<and>
       evaluateStructuredDataPath h (jsonLd d) ''0.offers.price'' = Some ''1399.00'' \<and>
       parseFloat h ''1399.00'' = JNum 1399"
  then have hit: "source_hit h d s JsonLdS = Some ''1399.00''"
    by (simp add: source_hit_def)
  have num: "apply_transform h t (JStr ''1399.00'') = Inr (JNum 1399)"
    using a by (simp add: apply_transform_parseNumber)
  show "processSelector h d s =
          Inr (Some \<lparr>value = JNum 1399, source = JsonLdS, path = ''0.offers.price'',
                      confidence = 9 / 10\<rparr>)"
    using a hit num
    by (simp add: processSelector_find source_order_def field_of_hit_def
        applyTransformations_def bind_e_def apply_selector_regex_def)
qed (simp_all add: applyTransformations_def)

theorem transformations_in_order_witness:
  "jsonLd_path price_selector = Some ''0.offers.price''
   \<and> transformations price_selector = Some [transformation ParseNumber]
   \<and> evaluateStructuredDataPath example_host (jsonLd example_payload) ''0.offers.price'' =
       Some ''1399.00''
   \<and> parseFloat example_host ''1399.00'' = JNum 1399
   \<and> processSelector example_host example_payload price_selector =
       Inr (Some \<lparr>value = JNum 1399, source = JsonLdS, path = ''0.offers.price'',
                   confidence = 9 / 10\<rparr>)
   \<and> applyTransformations example_host (JStr '' $1,399.00 '')
       (Some [transformation Trim, transformation ParseNumber, transformation Uppercase]) =
       Inr (JNum 1399)
   \<and> apply_transform example_host (transformation ParseNumber) (JStr ''$1,399.00'') =
       Inr (JNum 1399)
   \<and> apply_transform example_host (transformation ParseNumber) (JStr ''n/a'') =
       Inr (JStr ''n/a'')
   \<and> apply_transform example_host (transformation ParseNumber) (JStr ''-12.50 USD'') =
       Inr (JNum (- (25 / 2)))
   \<and> apply_transform example_host (transformation ParseNumber) (JStr ''0.1 kg'') =
       Inr (JNum (3602879701896397 / 36028797018963968))
   \<and> apply_transform example_host (transformation ParseNumber) (JStr ''9007199254740993'') =
       Inr (JNum 9007199254740992)
   \<and> apply_transform example_host (transformation ParseNumber)
       (JStr (CHR ''1'' # replicate 309 CHR ''0'')) = Inr JPosInfinity
   \<and> apply_transform example_host (transformation ParseNumber) (JStr ''-0'') = Inr JNegZero"
proof -
  have sel: "jsonLd_path price_selector = Some ''0.offers.price''"
    "transformations price_selector = Some [transformation ParseNumber]"
    "regex price_selector = None"
    by (simp_all add: price_selector_def empty_selector_def)
  have ty: "ttype (transformation ParseNumber) = ParseNumber"
    by (simp add: transformation_def)
  have ev: "evaluateStructuredDataPath example_host (jsonLd example_payload) ''0.offers.price'' =
       Some ''1399.00''"
    by (simp add: example_payload_def eval_defs)
  have tr: "truthy (jsonLd example_payload)"
    by (simp add: example_payload_def)
  have long: "replicate 309 CHR ''0'' \<noteq> str" if "length str < 309" for str
    using that by auto
  note nums = example_host_def example_numbers_def long
  have pf: "parseFloat example_host ''1399.00'' = JNum 1399"
    by (simp add: nums)
  note t = transformations_in_order
    [of example_host _ _ _ "transformation ParseNumber" _ price_selector example_payload]
  have p: "processSelector example_host example_payload price_selector =
       Inr (Some \<lparr>value = JNum 1399, source = JsonLdS, path = ''0.offers.price'',
                   confidence = 9 / 10\<rparr>)"
    using t [of "JNull" "[]" "[]" "[]"] sel ty ev tr pf by blast
  have "applyTransformations example_host (JStr '' $1,399.00 '')
       (Some ([transformation Trim] @ [transformation ParseNumber, transformation Uppercase])) =
     bind_e (applyTransformations example_host (JStr '' $1,399.00 '') (Some [transformation Trim]))
       (\<lambda>w. applyTransformations example_host w
          (Some [transformation ParseNumber, transformation Uppercase]))"
    using transformations_in_order
      [of example_host "JStr '' $1,399.00 ''" "[transformation Trim]"
          "[transformation ParseNumber, transformation Uppercase]"
          "transformation ParseNumber" "[]" price_selector example_payload]
    by (elim conjE)
  then have q: "applyTransformations example_host (JStr '' $1,399.00 '')
       (Some [transformation Trim, transformation ParseNumber, transformation Uppercase]) =
       Inr (JNum 1399)"
    by (simp add: applyTransformations_def apply_transform_def transformation_def bind_e_def
        nums ascii_space_def strip_non_numeric_def is_digit_def)
  have pfs: "parseFloat example_host [] = JNaN"
    "parseFloat example_host ''-12.50'' = JNum (- (25 / 2))"
    "parseFloat example_host ''0.1'' = JNum (3602879701896397 / 36028797018963968)"
    "parseFloat example_host ''9007199254740993'' = JNum 9007199254740992"
    "parseFloat example_host (CHR ''1'' # replicate 309 CHR ''0'') = JPosInfinity"
    "parseFloat example_host ''-0'' = JNegZero"
    by (simp_all add: nums)
  have r1: "apply_transform example_host (transformation ParseNumber) (JStr ''$1,399.00'') =
       Inr (JNum 1399)"
    using t [of "JNull" "[]" "[]" "''$1,399.00''"] ty by (simp add: pf)
  have r2: "apply_transform example_host (transformation ParseNumber) (JStr ''n/a'') =
       Inr (JStr ''n/a'')"
    using t [of "JNull" "[]" "[]" "''n/a''"] ty by (simp add: pfs)
  have r3: "apply_transform example_host (transformation ParseNumber) (JStr ''-12.50 USD'') =
       Inr (JNum (- (25 / 2)))"
    using t [of "JNull" "[]" "[]" "''-12.50 USD''"] ty by (simp add: pfs)
  have r4: "apply_transform example_host (transformation ParseNumber) (JStr ''0.1 kg'') =
       Inr (JNum (3602879701896397 / 36028797018963968))"
    using t [of "JNull" "[]" "[]" "''0.1 kg''"] ty by (simp add: pfs)
  have r5: "apply_transform example_host (transformation ParseNumber) (JStr ''9007199254740993'') =
       Inr (JNum 9007199254740992)"
    using t [of "JNull" "[]" "[]" "''9007199254740993''"] ty by (simp add: pfs)
  have r6: "apply_transform example_host (transformation ParseNumber)
       (JStr (CHR ''1'' # replicate 309 CHR ''0'')) = Inr JPosInfinity"
    using t [of "JNull" "[]" "[]" "CHR ''1'' # replicate 309 CHR ''0''"] ty by (simp add: pfs)
  have r7: "apply_transform example_host (transformation ParseNumber) (JStr ''-0'') = Inr JNegZero"
    using t [of "JNull" "[]" "[]" "''-0''"] ty by (simp add: pfs)
  from sel(1,2) ev pf p q r1 r2 r3 r4 r5 r6 r7 show ?thesis by (intro conjI)
qed

text \<open>
  Claim C9. A \<open>replace\<close> transformation whose replacement is the empty string or
  absent, or whose pattern is absent or empty, changes no value: alone, and at any
  place in a list of transformations. Matched text can thus not be replaced by the
  empty string.
\<close>

theorem replace_without_replacement_is_identity:
  "ttype t = Replace \<and>
   (replacement t = None \<or> replacement t = Some [] \<or> pattern t = None \<or> pattern t = Some []) \<longrightarrow>
     apply_transform h t v = Inr v
     \<and> applyTransformations h v (Some [t]) = Inr v
     \<and> applyTransformations h v (Some (ts @ t # us)) = applyTransformations h v (Some (ts @ us))"
proof (intro impI conjI)
  assume a: "ttype t = Replace \<and>
   (replacement t = None \<or> replacement t = Some [] \<or> pattern t = None \<or> pattern t = Some [])"
  then show id: "apply_transform h t v = Inr v" for v
    using apply_transform_replace_noop by blast
  then show "applyTransformations h v (Some [t]) = Inr v"
    by (simp add: applyTransformations_loop bind_e_simps)
  have "transform_loop h (t # us) = transform_loop h us"
    by (rule ext) (simp add: id bind_e_simps)
  then show "applyTransformations h v (Some (ts @ t # us)) =
      applyTransformations h v (Some (ts @ us))"
    by (simp only: applyTransformations_loop transform_loop_append)
qed

theorem replace_without_replacement_is_identity_witness:
  "applyTransformations example_host (JStr ''USD 1399'')
     (Some [\<lparr>ttype = Replace, pattern = Some ''USD '', replacement = Some [], flags = Some ''g''\<rparr>]) =
   Inr (JStr ''USD 1399'')
   \<and> apply_transform example_host
       \<lparr>ttype = Replace, pattern = None, replacement = Some ''x'', flags = None\<rparr> (JStr ''USD 1399'') =
     Inr (JStr ''USD 1399'')"
proof -
  have a: "applyTransformations example_host (JStr ''USD 1399'')
     (Some [\<lparr>ttype = Replace, pattern = Some ''USD '', replacement = Some [], flags = Some ''g''\<rparr>]) =
   Inr (JStr ''USD 1399'')"
    using replace_without_replacement_is_identity
      [of "\<lparr>ttype = Replace, pattern = Some ''USD '', replacement = Some [], flags = Some ''g''\<rparr>"
          example_host "JStr ''USD 1399''" "[]" "[]"]
    by simp
  have b: "apply_transform example_host
       \<lparr>ttype = Replace, pattern = None, replacement = Some ''x'', flags = None\<rparr> (JStr ''USD 1399'') =
     Inr (JStr ''USD 1399'')"
    using replace_without_replacement_is_identity
      [of "\<lparr>ttype = Replace, pattern = None, replacement = Some ''x'', flags = None\<rparr>"
          example_host "JStr ''USD 1399''" "[]" "[]"]
    by simp
  from a b show ?thesis by blast
qed

text \<open>
  Claim C10. A value that is not a string (a number, a boolean, \<open>null\<close>) passes every
  transformation and every list of transformations unchanged; once the transformations
  have produced such a value, the transformations that follow keep it.
\<close>

theorem transformations_keep_non_strings:
  "(typeof v \<noteq> ''string'' \<longrightarrow> apply_transform h t v = Inr v)
   \<and> (typeof v \<noteq> ''string'' \<longrightarrow> applyTransformations h v tso = Inr v)
   \<and> (applyTransformations h u (Some ts) = Inr w \<and> typeof w \<noteq> ''string'' \<longrightarrow>
        applyTransformations h u (Some (ts @ us)) = Inr w)
   \<and> typeof (JNum n) \<noteq> ''string'' \<and> typeof (JBool b) \<noteq> ''string'' \<and> typeof JNull \<noteq> ''string''"
proof (intro conjI impI)
  assume "typeof v \<noteq> ''string''"
  then show "apply_transform h t v = Inr v" by (rule apply_transform_non_string)
next
  assume "typeof v \<noteq> ''string''"
  then show "applyTransformations h v tso = Inr v"
    by (cases tso) (simp_all add: applyTransformations_def transform_loop_non_string)
next
  assume "applyTransformations h u (Some ts) = Inr w \<and> typeof w \<noteq> ''string''"
  then show "applyTransformations h u (Some (ts @ us)) = Inr w"
    by (simp add: applyTransformations_loop transform_loop_append bind_e_simps
        transform_loop_non_string)
qed simp_all

theorem transformations_keep_non_strings_witness:
  "applyTransformations example_host (JNum 5)
     (Some [transformation Trim, transformation ParseBoolean, transformation Uppercase]) =
   Inr (JNum 5)
   \<and> applyTransformations example_host (JStr ''YES'') (Some [transformation ParseBoolean]) =
       Inr (JBool True)
   \<and> applyTransformations example_host (JStr ''YES'')
       (Some ([transformation ParseBoolean] @ [transformation Lowercase, transformation ParseNumber])) =
       Inr (JBool True)"
proof -
  note t = transformations_keep_non_strings
    [of "JNum 5" example_host "transformation Trim"
        "Some [transformation Trim, transformation ParseBoolean, transformation Uppercase]"
        "JStr ''YES''" "[transformation ParseBoolean]" "JBool True"
        "[transformation Lowercase, transformation ParseNumber]" 5 True]
  have a: "applyTransformations example_host (JNum 5)
     (Some [transformation Trim, transformation ParseBoolean, transformation Uppercase]) =
   Inr (JNum 5)"
    using t by simp
  have b: "applyTransformations example_host (JStr ''YES'') (Some [transformation ParseBoolean]) =
       Inr (JBool True)"
    by (simp add: applyTransformations_def apply_transform_def transformation_def bind_e_def
        example_host_def ascii_lower_def)
  have c: "applyTransformations example_host (JStr ''YES'')
       (Some ([transformation ParseBoolean] @ [transformation Lowercase, transformation ParseNumber])) =
       Inr (JBool True)"
    using t b by simp
  from a b c show ?thesis by blast
qed

section \<open>The claims about recipes and validation\<close>

text \<open>
  Claim C8, as amended. For field names that are distinct, none of them \<open>__proto__\<close>,
  and selectors none of which raises an exception, \<open>processRecipe\<close> returns a mapping
  that holds a field name exactly when \<open>processSelector\<close> on its selector alone
  gives a field, and holds that field under it; an entry that resolves to \<open>null\<close> has
  no key. When the selector of one entry raises an exception, the call raises it and
  returns no mapping.
\<close>

theorem processRecipe_omits_misses:
  "(distinct (map fst sels) \<and> ''__proto__'' \<notin> fst ` set sels \<and>
    (\<forall>(k, sel) \<in> set sels. \<exists>x. processSelector h d sel = Inr x) \<longrightarrow>
     (\<exists>res. processRecipe h d sels = Inr res \<and>
        (\<forall>k f. res k = Some f \<longleftrightarrow>
           (\<exists>sel. (k, sel) \<in> set sels \<and> processSelector h d sel = Inr (Some f))) \<and>
        dom res = {k. \<exists>sel f. (k, sel) \<in> set sels \<and> processSelector h d sel = Inr (Some f)}))
   \<and> ((\<exists>(k, sel) \<in> set sels. \<exists>e. processSelector h d sel = Inl e) \<longrightarrow>
        (\<exists>e. processRecipe h d sels = Inl e))"
proof (intro conjI impI)
  assume a: "distinct (map fst sels) \<and> ''__proto__'' \<notin> fst ` set sels \<and>
   (\<forall>(k, sel) \<in> set sels. \<exists>x. processSelector h d sel = Inr x)"
  then obtain res where res: "processRecipe h d sels = Inr res"
    "\<forall>k f. res k = Some f \<longleftrightarrow>
       (\<exists>sel. (k, sel) \<in> set sels \<and> processSelector h d sel = Inr (Some f))"
    using processRecipe_result [of sels h d] by blast
  from res(2) have "dom res =
      {k. \<exists>sel f. (k, sel) \<in> set sels \<and> processSelector h d sel = Inr (Some f)}"
    by (auto simp: dom_def)
  with res show "\<exists>res. processRecipe h d sels = Inr res \<and>
        (\<forall>k f. res k = Some f \<longleftrightarrow>
           (\<exists>sel. (k, sel) \<in> set sels \<and> processSelector h d sel = Inr (Some f))) \<and>
        dom res = {k. \<exists>sel f. (k, sel) \<in> set sels \<and> processSelector h d sel = Inr (Some f)}"
    by blast
next
  assume "\<exists>(k, sel) \<in> set sels. \<exists>e. processSelector h d sel = Inl e"
  then show "\<exists>e. processRecipe h d sels = Inl e"
    unfolding processRecipe_def using recipe_loop_raises by fast
qed

theorem processRecipe_omits_misses_witness:
  "\<exists>res. processRecipe example_host example_payload example_recipe = Inr res
     \<and> res ''productName'' =
         Some \<lparr>value = JStr ''Laptop'', source = JsonLdS, path = ''0.name'',
                confidence = 9 / 10\<rparr>
     \<and> res ''sku'' = None
     \<and> res ''price'' =
         Some \<lparr>value = JNum 1399, source = JsonLdS, path = ''0.offers.price'',
                confidence = 9 / 10\<rparr>
     \<and> dom res = {''productName'', ''price''}
     \<and> (\<exists>e. processRecipe example_host example_payload
            [(''price'', unclosed_selector), (''productName'', priority_selector)] = Inl e)"
proof -
  note sel = example_selectors
  have mem: "(k, s) \<in> set example_recipe \<longleftrightarrow>
      k = ''productName'' \<and> s = priority_selector \<or>
      k = ''sku'' \<and> s = missing_selector \<or>
      k = ''price'' \<and> s = price_selector" for k s
    unfolding example_recipe_def by (simp only: set_simps insert_iff empty_iff prod.inject) blast
  have pre: "distinct (map fst example_recipe) \<and> ''__proto__'' \<notin> fst ` set example_recipe \<and>
    (\<forall>(k, sel) \<in> set example_recipe.
       \<exists>x. processSelector example_host example_payload sel = Inr x)"
    by (simp add: example_recipe_def sel)
  have "\<exists>res. processRecipe example_host example_payload example_recipe = Inr res \<and>
      (\<forall>k f. res k = Some f \<longleftrightarrow>
         (\<exists>sel. (k, sel) \<in> set example_recipe \<and>
            processSelector example_host example_payload sel = Inr (Some f))) \<and>
      dom res = {k. \<exists>sel f. (k, sel) \<in> set example_recipe \<and>
            processSelector example_host example_payload sel = Inr (Some f)}"
    using processRecipe_omits_misses
      [of example_recipe example_host example_payload, THEN conjunct1, THEN mp, OF pre] .
  then obtain res where res: "processRecipe example_host example_payload example_recipe = Inr res"
    and iff: "\<And>k f. res k = Some f \<longleftrightarrow>
       (\<exists>sel. (k, sel) \<in> set example_recipe \<and>
          processSelector example_host example_payload sel = Inr (Some f))"
    by (elim exE conjE) (rule that, assumption, simp)
  have a: "res ''productName'' =
         Some \<lparr>value = JStr ''Laptop'', source = JsonLdS, path = ''0.name'',
                confidence = 9 / 10\<rparr>"
    unfolding iff mem using sel(1) by (intro exI [of _ priority_selector]) simp
  have c: "res ''price'' =
         Some \<lparr>value = JNum 1399, source = JsonLdS, path = ''0.offers.price'',
                confidence = 9 / 10\<rparr>"
    unfolding iff mem using sel(3) by (intro exI [of _ price_selector]) simp
  have none: "res k = None" if k: "k \<noteq> ''productName''" "k \<noteq> ''price''" for k
  proof (cases "res k")
    case None
    then show ?thesis .
  next
    case (Some f)
    then obtain s where "(k, s) \<in> set example_recipe"
      and s: "processSelector example_host example_payload s = Inr (Some f)"
      unfolding iff by (elim exE conjE)
    with k have "s = missing_selector" unfolding mem by (elim disjE conjE) simp_all
    with s sel(2) show ?thesis by simp
  qed
  have b: "res ''sku'' = None" by (rule none) simp_all
  have d: "dom res = {''productName'', ''price''}"
  proof (rule set_eqI)
    fix k
    show "k \<in> dom res \<longleftrightarrow> k \<in> {''productName'', ''price''}"
    proof (cases "k = ''productName'' \<or> k = ''price''")
      case True
      then show ?thesis using a c by (elim disjE) (simp_all add: dom_def)
    next
      case False
      then have "res k = None" using none by simp
      with False show ?thesis by (simp add: dom_def)
    qed
  qed
  have "\<exists>(k, sel) \<in> set [(''price'', unclosed_selector), (''productName'', priority_selector)].
      \<exists>e. processSelector example_host example_payload sel = Inl e"
    by (simp add: sel)
  then have e: "\<exists>e. processRecipe example_host example_payload
      [(''price'', unclosed_selector), (''productName'', priority_selector)] = Inl e"
    using processRecipe_omits_misses
      [of "[(''price'', unclosed_selector), (''productName'', priority_selector)]"
          example_host example_payload, THEN conjunct2]
    by (elim impE)
  from res a b c d e show ?thesis by (intro exI [of _ res] conjI)
qed

text \<open>
  The claim as first stated fails on a recipe with a regular expression that does not
  compile: the entry \<open>productName\<close> resolves on its own, and the call returns no
  mapping for it.
\<close>

theorem processRecipe_raises_counterexample:
  "processSelector example_host example_payload priority_selector =
     Inr (Some \<lparr>value = JStr ''Laptop'', source = JsonLdS, path = ''0.name'',
                 confidence = 9 / 10\<rparr>)
   \<and> processSelector example_host example_payload unclosed_selector = Inl SyntaxError
   \<and> processRecipe example_host example_payload
       [(''price'', unclosed_selector), (''productName'', priority_selector)] = Inl SyntaxError"
  by (simp add: example_selectors processRecipe_def bind_e_def)

text \<open>
  Claim C7. \<open>validateStructuredData\<close> returns a boolean and never throws, and it
  returns false whenever \<open>jsonLd\<close> is not an array (both in
  \<open>validateStructuredData_total\<close> and \<open>validateStructuredData_iff\<close>). It does not
  require \<open>metaTags\<close> and \<open>dataLayers\<close> to be objects: the test is
  \<open>typeof v === 'object'\<close>, which \<open>null\<close> passes, and the candidate itself is the
  only value tested against \<open>null\<close>. A candidate whose \<open>metaTags\<close> and \<open>dataLayers\<close>
  are \<open>null\<close> and whose other fields are well typed is accepted, on every host.
\<close>

theorem validateStructuredData_null_tables:
  "validateStructuredData h null_tables_candidate = Inr True
   \<and> getProp h null_tables_candidate ''metaTags'' = Inr JNull
   \<and> getProp h null_tables_candidate ''dataLayers'' = Inr JNull"
  by (simp add: validateStructuredData_def null_tables_candidate_def getProp_def bind_e_def)

theorem validateStructuredData_null_tables_witness:
  "validateStructuredData example_host null_tables_candidate = Inr True"
  using validateStructuredData_null_tables [of example_host] by simp


end
